theory Spec2Isabelle
  imports Main "HOL-Library.Word"
begin

section \<open>Data model\<close>

text \<open>
  The three scripts (\<^verbatim>\<open>src/Program.ts\<close>, \<^verbatim>\<open>part_000\<close>, \<^verbatim>\<open>part_001\<close>) share the type
  \<^verbatim>\<open>User = { id: number, name: string }\<close>. Identifiers are integers (spec, section 3): an id
  is a signed 54-bit integer, from \<open>-2^53\<close> to \<open>2^53 - 1\<close>, the range in which every integer is
  a number of JavaScript that is written as its decimal digits. Other numbers are no ids of
  this model. A string is a sequence of code units below 256.
  The field \<^verbatim>\<open>id\<close> is called \<open>user_id\<close> here, since \<open>id\<close> is the identity function of HOL.
  Names defined in more than one script carry the suffix of their script:
  \<open>_prog\<close> for \<^verbatim>\<open>Program.ts\<close>, \<open>_000\<close> for \<^verbatim>\<open>part_000\<close>, \<open>_001\<close> for \<^verbatim>\<open>part_001\<close>.
\<close>

record User =
  user_id :: "54 word"
  name :: string

text \<open>Decimal digits of an integer.\<close>

definition digit :: "nat \<Rightarrow> char" where
  "digit d = ''0123456789'' ! d"

function show_nat :: "nat \<Rightarrow> string" where
  "show_nat n = (if n < 10 then [digit n] else show_nat (n div 10) @ [digit (n mod 10)])"
  by pat_completeness auto
termination
  by (relation "measure (\<lambda>n. n)") auto

declare show_nat.simps [simp del]

definition show_int :: "int \<Rightarrow> string" where
  "show_int i = (if i < 0 then ''-'' @ show_nat (nat (- i)) else show_nat (nat i))"

text \<open>
  \<^verbatim>\<open>Number::toString\<close> of an id, as in the template literal \<^verbatim>\<open>`User ${id}`\<close> and in
  \<^verbatim>\<open>JSON.stringify\<close>: in the range of the ids it is the decimal digits.
\<close>

definition Number_toString :: "54 word \<Rightarrow> string" where
  "Number_toString n = show_int (sint n)"

subsection \<open>Error taxonomy\<close>

text \<open>
  Both error classes extend \<^verbatim>\<open>Error\<close>; their \<^verbatim>\<open>_tag\<close> and \<^verbatim>\<open>name\<close> are the class name for
  every instance, so an instance is determined by its message. The constructors prefix the
  message with the class name.
\<close>

datatype UserRepositoryError = UserRepositoryError (repository_message: string)

datatype LocalStorageError = LocalStorageError (message: string)

definition new_UserRepositoryError :: "string \<Rightarrow> UserRepositoryError" where
  "new_UserRepositoryError m = UserRepositoryError (''UserRepositoryError: '' @ m)"

definition new_LocalStorageError :: "string \<Rightarrow> LocalStorageError" where
  "new_LocalStorageError m = LocalStorageError (''LocalStorageError: '' @ m)"

definition UserRepositoryError_NotFound :: "54 word \<Rightarrow> UserRepositoryError" where
  "UserRepositoryError_NotFound i =
     new_UserRepositoryError (''User with id '' @ Number_toString i @ '' not found'')"

text \<open>
  A thrown value has the type \<^verbatim>\<open>unknown\<close>: it is an instance of \<^verbatim>\<open>LocalStorageError\<close>,
  some other instance of \<^verbatim>\<open>Error\<close> (a \<^verbatim>\<open>SyntaxError\<close> of the JSON parser, a \<^verbatim>\<open>TypeError\<close>,
  an exception of the store) with its message, or a value that is no \<^verbatim>\<open>Error\<close>.
\<close>

datatype js_thrown =
    ThrownLocalStorageError LocalStorageError
  | ThrownError string
  | ThrownNonError

definition parseError :: "js_thrown \<Rightarrow> LocalStorageError" where
  "parseError error =
     (case error of
        ThrownLocalStorageError e \<Rightarrow> new_LocalStorageError (message e)
      | ThrownError m \<Rightarrow> new_LocalStorageError m
      | ThrownNonError \<Rightarrow> new_LocalStorageError ''Unknown error'')"

definition stringifyError :: "js_thrown \<Rightarrow> LocalStorageError" where
  "stringifyError error =
     (case error of
        ThrownLocalStorageError e \<Rightarrow> new_LocalStorageError (message e)
      | ThrownError m \<Rightarrow> new_LocalStorageError m
      | ThrownNonError \<Rightarrow> new_LocalStorageError ''Unknown error'')"

definition LocalStorageError_NotFound :: "string \<Rightarrow> LocalStorageError" where
  "LocalStorageError_NotFound key =
     new_LocalStorageError (''LocalStorage key '' @ key @ '' not found'')"

section \<open>Values at run time\<close>

text \<open>
  The types of TypeScript are erased at run time, and \<^verbatim>\<open>JSON.parse(item) as T\<close> is not
  checked: what the store service hands to the repository is whatever value the text denotes.
  \<open>json\<close> is the type of these values. \<open>JNumber\<close> is a number in the range of the ids;
  \<open>JNumber_other\<close> is any other number, given by the text \<^verbatim>\<open>Number::toString\<close> writes for it
  (\<^verbatim>\<open>"1.5"\<close>, \<^verbatim>\<open>"1e+21"\<close>, \<^verbatim>\<open>"Infinity"\<close>), and by \<^verbatim>\<open>"-0"\<close> for the negative zero, which
  \<^verbatim>\<open>Number::toString\<close> writes as \<^verbatim>\<open>"0"\<close>. The members of an object are in the order of its
  properties.
\<close>

datatype json =
    JNull
  | JBool bool
  | JNumber "54 word"
  | JNumber_other string
  | JString string
  | JArray "json list"
  | JObject "(string \<times> json) list"

text \<open>The object that a value of the type \<^verbatim>\<open>User\<close> is, and the array of such objects.\<close>

definition json_of_User :: "User \<Rightarrow> json" where
  "json_of_User u = JObject [(''id'', JNumber (user_id u)), (''name'', JString (name u))]"

definition json_of_Users :: "User list \<Rightarrow> json" where
  "json_of_Users us = JArray (map json_of_User us)"

text \<open>What \<^verbatim>\<open>console.log(label, value)\<close> is given: \<^verbatim>\<open>undefined\<close> or a value.\<close>

datatype js_value = JsUndefined | JsDefined json

definition JsUser :: "User \<Rightarrow> js_value" where
  "JsUser u = JsDefined (json_of_User u)"

definition JsUsers :: "User list \<Rightarrow> js_value" where
  "JsUsers us = JsDefined (json_of_Users us)"

definition of_undefined :: "User option \<Rightarrow> js_value" where
  "of_undefined u = (case u of None \<Rightarrow> JsUndefined | Some v \<Rightarrow> JsUser v)"

definition or_undefined :: "json option \<Rightarrow> js_value" where
  "or_undefined r = (case r of None \<Rightarrow> JsUndefined | Some v \<Rightarrow> JsDefined v)"

text \<open>
  Truthiness, for \<^verbatim>\<open>users || []\<close>: \<^verbatim>\<open>null\<close>, \<^verbatim>\<open>false\<close>, the two zeros, \<^verbatim>\<open>NaN\<close> and the empty
  string are falsy; every array and every object is truthy.
\<close>

definition truthy :: "json \<Rightarrow> bool" where
  "truthy v =
     (case v of
        JNull \<Rightarrow> False
      | JBool b \<Rightarrow> b
      | JNumber n \<Rightarrow> n \<noteq> 0
      | JNumber_other s \<Rightarrow> s \<noteq> ''NaN'' \<and> s \<noteq> ''-0''
      | JString s \<Rightarrow> s \<noteq> []
      | JArray xs \<Rightarrow> True
      | JObject kvs \<Rightarrow> True)"

definition or_empty :: "json option \<Rightarrow> json" where
  "or_empty r = (case r of None \<Rightarrow> JArray [] | Some v \<Rightarrow> if truthy v then v else JArray [])"

text \<open>
  The \<^verbatim>\<open>TypeError\<close> thrown when a property of \<^verbatim>\<open>null\<close> is read or when a value that is no
  function is called. Its message depends on the engine and is not told apart here.
\<close>

definition TypeError :: js_thrown where
  "TypeError = ThrownError ''TypeError''"

text \<open>
  The callback \<^verbatim>\<open>(user) => user.id === id\<close> on an element: reading \<^verbatim>\<open>.id\<close> of \<^verbatim>\<open>null\<close>
  throws; an object has the property or not; every other value has no such property, and
  \<^verbatim>\<open>undefined === id\<close> is false. \<^verbatim>\<open>===\<close> holds of the number \<open>id\<close> only, and of the negative
  zero when \<open>id\<close> is zero.
\<close>

definition id_equals :: "54 word \<Rightarrow> json \<Rightarrow> js_thrown + bool" where
  "id_equals i user =
     (case user of
        JNull \<Rightarrow> Inl TypeError
      | JObject kvs \<Rightarrow>
          Inr (map_of kvs ''id'' = Some (JNumber i)
               \<or> i = 0 \<and> map_of kvs ''id'' = Some (JNumber_other ''-0''))
      | _ \<Rightarrow> Inr False)"

text \<open>
  \<^verbatim>\<open>Array.prototype.find\<close> and \<^verbatim>\<open>Array.prototype.findIndex\<close> with a callback that may
  throw: the first element (its index) on which the callback returns true, \<^verbatim>\<open>undefined\<close>
  (\<open>-1\<close>) when there is none.
\<close>

fun Array_find :: "('a \<Rightarrow> js_thrown + bool) \<Rightarrow> 'a list \<Rightarrow> js_thrown + 'a option" where
  "Array_find p [] = Inr None"
| "Array_find p (x # xs) =
     (case p x of Inl t \<Rightarrow> Inl t | Inr b \<Rightarrow> if b then Inr (Some x) else Array_find p xs)"

fun Array_findIndex :: "('a \<Rightarrow> js_thrown + bool) \<Rightarrow> 'a list \<Rightarrow> js_thrown + int" where
  "Array_findIndex p [] = Inr (- 1)"
| "Array_findIndex p (x # xs) =
     (case p x of
        Inl t \<Rightarrow> Inl t
      | Inr b \<Rightarrow>
          if b then Inr 0
          else (case Array_findIndex p xs of
                  Inl t \<Rightarrow> Inl t
                | Inr i \<Rightarrow> if i = - 1 then Inr (- 1) else Inr (i + 1)))"

text \<open>
  \<^verbatim>\<open>users.find(cb)\<close> and \<^verbatim>\<open>users.findIndex(cb)\<close> on a value: only an array has these methods;
  on \<^verbatim>\<open>null\<close> the property read throws, on any other value the call of \<^verbatim>\<open>undefined\<close> (or of a
  member that is no function) throws.
\<close>

definition json_find :: "(json \<Rightarrow> js_thrown + bool) \<Rightarrow> json \<Rightarrow> js_thrown + json option" where
  "json_find cb users = (case users of JArray xs \<Rightarrow> Array_find cb xs | _ \<Rightarrow> Inl TypeError)"

definition json_findIndex :: "(json \<Rightarrow> js_thrown + bool) \<Rightarrow> json \<Rightarrow> js_thrown + int" where
  "json_findIndex cb users = (case users of JArray xs \<Rightarrow> Array_findIndex cb xs | _ \<Rightarrow> Inl TypeError)"

text \<open>The elements of an array; used only after \<^verbatim>\<open>findIndex\<close> has returned, so on an array.\<close>

definition elements :: "json \<Rightarrow> json list" where
  "elements users = (case users of JArray xs \<Rightarrow> xs | _ \<Rightarrow> [])"

text \<open>
  On the typed array of the in-memory repositories the callback cannot throw:
  \<^verbatim>\<open>Array.prototype.find\<close> is \<^const>\<open>find\<close>, with \<open>None\<close> for \<^verbatim>\<open>undefined\<close>, and
  \<^verbatim>\<open>Array.prototype.findIndex\<close> is \<open>findIndex\<close>.
\<close>

fun findIndex :: "('a \<Rightarrow> bool) \<Rightarrow> 'a list \<Rightarrow> int" where
  "findIndex p [] = - 1"
| "findIndex p (x # xs) =
     (if p x then 0 else (let i = findIndex p xs in if i = - 1 then - 1 else i + 1))"

section \<open>JSON\<close>

subsection \<open>\<^verbatim>\<open>JSON.stringify\<close>\<close>

text \<open>
  The text \<^verbatim>\<open>JSON.stringify\<close> writes for a value, without white space. In a string the quote,
  the backslash and the control characters are escaped. A number that is not finite is
  written \<^verbatim>\<open>null\<close>, and the negative zero is written \<^verbatim>\<open>0\<close>.
\<close>

definition dquote :: char where
  "dquote = CHR 0x22"

definition backslash :: char where
  "backslash = CHR 0x5C"

definition hex_digit :: "nat \<Rightarrow> char" where
  "hex_digit d = ''0123456789abcdef'' ! d"

definition escape_char :: "char \<Rightarrow> string" where
  "escape_char c =
     (if c = dquote \<or> c = backslash then [backslash, c]
      else if c = CHR 0x08 then [backslash, CHR ''b'']
      else if c = CHR 0x09 then [backslash, CHR ''t'']
      else if c = CHR 0x0A then [backslash, CHR ''n'']
      else if c = CHR 0x0C then [backslash, CHR ''f'']
      else if c = CHR 0x0D then [backslash, CHR ''r'']
      else if of_char c < (32 :: nat)
        then [backslash, CHR ''u'', CHR ''0'', CHR ''0'',
              hex_digit (of_char c div 16), hex_digit (of_char c mod 16)]
      else [c])"

definition quote_string :: "string \<Rightarrow> string" where
  "quote_string s = [dquote] @ concat (map escape_char s) @ [dquote]"

fun join_comma :: "string list \<Rightarrow> string" where
  "join_comma [] = []"
| "join_comma [x] = x"
| "join_comma (x # y # ys) = x @ '','' @ join_comma (y # ys)"

fun JSON_stringify :: "json \<Rightarrow> string"
  and stringify_member :: "string \<times> json \<Rightarrow> string" where
  "JSON_stringify JNull = ''null''"
| "JSON_stringify (JBool b) = (if b then ''true'' else ''false'')"
| "JSON_stringify (JNumber n) = Number_toString n"
| "JSON_stringify (JNumber_other s) =
     (if s = ''NaN'' \<or> s = ''Infinity'' \<or> s = ''-Infinity'' then ''null''
      else if s = ''-0'' then ''0''
      else s)"
| "JSON_stringify (JString s) = quote_string s"
| "JSON_stringify (JArray xs) = ''['' @ join_comma (map JSON_stringify xs) @ '']''"
| "JSON_stringify (JObject kvs) = ''{'' @ join_comma (map stringify_member kvs) @ ''}''"
| "stringify_member (k, v) = quote_string k @ '':'' @ JSON_stringify v"

subsection \<open>\<^verbatim>\<open>JSON.parse\<close>\<close>

text \<open>
  \<^verbatim>\<open>JSON.parse\<close> is given here on the texts without white space whose numbers are integers in
  the range of the ids, written without sign or leading zero beyond the grammar, and whose
  objects have distinct keys none of which is a run of digits (such keys would come first in
  the order of the properties). On these texts the reader below returns the value that
  \<^verbatim>\<open>JSON.parse\<close> returns. On every other text the result of \<^verbatim>\<open>JSON.parse\<close>, a value or a
  thrown error, is a parameter of the model.
\<close>

record JSON =
  JSON_parse_other :: "string \<Rightarrow> js_thrown + json"

definition is_digit :: "char \<Rightarrow> bool" where
  "is_digit c = (c \<in> set ''0123456789'')"

fun read_digits :: "string \<Rightarrow> int \<Rightarrow> int \<times> string" where
  "read_digits [] acc = (acc, [])"
| "read_digits (c # cs) acc =
     (if is_digit c then read_digits cs (10 * acc + (of_char c - 48)) else (acc, c # cs))"

text \<open>An unsigned integer: \<^verbatim>\<open>0\<close>, or digits that do not start with \<^verbatim>\<open>0\<close>.\<close>

definition read_nat :: "string \<Rightarrow> (int \<times> string) option" where
  "read_nat s =
     (case s of
        [] \<Rightarrow> None
      | c # cs \<Rightarrow>
          if c = CHR ''0'' then Some (0, cs)
          else if is_digit c then Some (read_digits s 0)
          else None)"

text \<open>
  An integer in the range of the ids, from \<open>-2^53 = -9007199254740992\<close> to \<open>2^53 - 1\<close>;
  \<^verbatim>\<open>-0\<close> is left to the parameter.
\<close>

definition read_number :: "string \<Rightarrow> (54 word \<times> string) option" where
  "read_number s =
     (case s of
        [] \<Rightarrow> None
      | c # cs \<Rightarrow>
          if c = CHR ''-'' then
            (case read_nat cs of
               None \<Rightarrow> None
             | Some (n, r) \<Rightarrow>
                 if 0 < n \<and> n \<le> 9007199254740992 then Some (word_of_int (- n), r) else None)
          else
            (case read_nat s of
               None \<Rightarrow> None
             | Some (n, r) \<Rightarrow> if n < 9007199254740992 then Some (word_of_int n, r) else None))"

definition hex_value :: "char \<Rightarrow> nat option" where
  "hex_value c =
     (if is_digit c then Some (of_char c - 48)
      else if c \<in> set ''abcdef'' then Some (of_char c - 87)
      else if c \<in> set ''ABCDEF'' then Some (of_char c - 55)
      else None)"

definition unescape :: "char \<Rightarrow> char option" where
  "unescape d =
     (if d = dquote \<or> d = backslash \<or> d = CHR ''/'' then Some d
      else if d = CHR ''b'' then Some (CHR 0x08)
      else if d = CHR ''t'' then Some (CHR 0x09)
      else if d = CHR ''n'' then Some (CHR 0x0A)
      else if d = CHR ''f'' then Some (CHR 0x0C)
      else if d = CHR ''r'' then Some (CHR 0x0D)
      else None)"

text \<open>
  The characters of a string after its opening quote, up to the closing quote. A control
  character must be escaped; a \<^verbatim>\<open>\u\<close> escape of a code unit from 256 is left to the parameter.
\<close>

fun read_string_body :: "string \<Rightarrow> (string \<times> string) option" where
  "read_string_body [] = None"
| "read_string_body (c # cs) =
     (if c = dquote then Some ([], cs)
      else if c = backslash then
        (case cs of
           [] \<Rightarrow> None
         | d # ds \<Rightarrow>
             if d = CHR ''u'' then
               (case ds of
                  h1 # h2 # h3 # h4 # r \<Rightarrow>
                    (case (hex_value h1, hex_value h2, hex_value h3, hex_value h4) of
                       (Some a, Some b, Some c', Some d') \<Rightarrow>
                         if a = 0 \<and> b = 0
                         then map_option (\<lambda>(s, r'). (char_of (16 * c' + d') # s, r'))
                                (read_string_body r)
                         else None
                     | _ \<Rightarrow> None)
                | _ \<Rightarrow> None)
             else
               (case unescape d of
                  None \<Rightarrow> None
                | Some e \<Rightarrow> map_option (\<lambda>(s, r'). (e # s, r')) (read_string_body ds)))
      else if of_char c < (32 :: nat) then None
      else map_option (\<lambda>(s, r'). (c # s, r')) (read_string_body cs))"

definition expect :: "string \<Rightarrow> string \<Rightarrow> string option" where
  "expect p s = (if take (length p) s = p then Some (drop (length p) s) else None)"

definition index_like :: "string \<Rightarrow> bool" where
  "index_like k = (k \<noteq> [] \<and> list_all is_digit k)"

definition plain_keys :: "(string \<times> json) list \<Rightarrow> bool" where
  "plain_keys kvs = (distinct (map fst kvs) \<and> list_all (\<lambda>k. \<not> index_like k) (map fst kvs))"

text \<open>
  The reader, by recursive descent; the first argument bounds the depth of the calls, and
  a text of \<open>n\<close> characters is read with the bound \<open>n + 1\<close>.
\<close>

fun read_value :: "nat \<Rightarrow> string \<Rightarrow> (json \<times> string) option"
  and read_elements :: "nat \<Rightarrow> string \<Rightarrow> (json list \<times> string) option"
  and read_members :: "nat \<Rightarrow> string \<Rightarrow> ((string \<times> json) list \<times> string) option" where
  "read_value 0 s = None"
| "read_value (Suc fuel) s =
     (case s of
        [] \<Rightarrow> None
      | c # cs \<Rightarrow>
          if c = CHR ''n'' then map_option (Pair JNull) (expect ''ull'' cs)
          else if c = CHR ''t'' then map_option (Pair (JBool True)) (expect ''rue'' cs)
          else if c = CHR ''f'' then map_option (Pair (JBool False)) (expect ''alse'' cs)
          else if c = dquote then map_option (\<lambda>(str, r). (JString str, r)) (read_string_body cs)
          else if c = CHR ''['' then
            (case expect '']'' cs of
               Some r \<Rightarrow> Some (JArray [], r)
             | None \<Rightarrow> map_option (\<lambda>(xs, r). (JArray xs, r)) (read_elements fuel cs))
          else if c = CHR ''{'' then
            (case expect ''}'' cs of
               Some r \<Rightarrow> Some (JObject [], r)
             | None \<Rightarrow>
                 (case read_members fuel cs of
                    None \<Rightarrow> None
                  | Some (kvs, r) \<Rightarrow> if plain_keys kvs then Some (JObject kvs, r) else None))
          else map_option (\<lambda>(n, r). (JNumber n, r)) (read_number s))"
| "read_elements 0 s = None"
| "read_elements (Suc fuel) s =
     (case read_value fuel s of
        None \<Rightarrow> None
      | Some (v, r) \<Rightarrow>
          (case expect '']'' r of
             Some r' \<Rightarrow> Some ([v], r')
           | None \<Rightarrow>
               (case expect '','' r of
                  None \<Rightarrow> None
                | Some r' \<Rightarrow> map_option (\<lambda>(vs, r''). (v # vs, r'')) (read_elements fuel r'))))"
| "read_members 0 s = None"
| "read_members (Suc fuel) s =
     (case expect [dquote] s of
        None \<Rightarrow> None
      | Some r0 \<Rightarrow>
          (case read_string_body r0 of
             None \<Rightarrow> None
           | Some (k, r1) \<Rightarrow>
               (case expect '':'' r1 of
                  None \<Rightarrow> None
                | Some r2 \<Rightarrow>
                    (case read_value fuel r2 of
                       None \<Rightarrow> None
                     | Some (v, r3) \<Rightarrow>
                         (case expect ''}'' r3 of
                            Some r4 \<Rightarrow> Some ([(k, v)], r4)
                          | None \<Rightarrow>
                              (case expect '','' r3 of
                                 None \<Rightarrow> None
                               | Some r4 \<Rightarrow>
                                   map_option (\<lambda>(kvs, r5). ((k, v) # kvs, r5))
                                     (read_members fuel r4)))))))"

definition read_text :: "string \<Rightarrow> json option" where
  "read_text text =
     (case read_value (Suc (length text)) text of
        Some (v, r) \<Rightarrow> if r = [] then Some v else None
      | None \<Rightarrow> None)"

definition JSON_parse :: "JSON \<Rightarrow> string \<Rightarrow> js_thrown + json" where
  "JSON_parse J text =
     (case read_text text of Some v \<Rightarrow> Inr v | None \<Rightarrow> JSON_parse_other J text)"

section \<open>The platform: store and console\<close>

text \<open>
  The browser store \<^verbatim>\<open>localStorage\<close> is a string-keyed map of strings. Its calls can throw:
  every access throws when the store is unavailable (the global is undefined, or access is
  denied), and \<^verbatim>\<open>setItem\<close> throws when the store rejects a write (quota exceeded).
\<close>

record LocalStorage =
  unavailable :: "js_thrown option"
  items :: "string \<rightharpoonup> string"
  rejects :: "string \<Rightarrow> string \<Rightarrow> js_thrown option"

text \<open>
  The state a script runs in: the store, the module-level array \<^verbatim>\<open>users\<close> (its elements,
  and the properties of the array object that are no array index), and the lines printed.
\<close>

record World =
  localStorage :: LocalStorage
  users :: "User list"
  users_props :: "string \<rightharpoonup> User"
  console :: "(string \<times> js_value) list"

section \<open>Effects\<close>

text \<open>
  \<^verbatim>\<open>Effect<A, E>\<close> evaluated synchronously: from a state, a success \<open>Inr a\<close> or a cause
  \<open>Inl c\<close>, and the state after. The cause is a failure \<open>Fail e\<close> with an error of the type
  \<^verbatim>\<open>E\<close>, or a defect \<open>Die t\<close>: something thrown by a callback or by the body of a generator,
  which has no place in \<^verbatim>\<open>E\<close> and which \<^verbatim>\<open>Effect.catchAll\<close> does not catch.
  Services are passed as arguments instead of a context.
\<close>

datatype 'e cause = Fail 'e | Die js_thrown

type_synonym ('a, 'e) Effect = "World \<Rightarrow> ('e cause + 'a) \<times> World"

definition Effect_succeed :: "'a \<Rightarrow> ('a, 'e) Effect" where
  "Effect_succeed a = (\<lambda>w. (Inr a, w))"

definition Effect_fail :: "'e \<Rightarrow> ('a, 'e) Effect" where
  "Effect_fail e = (\<lambda>w. (Inl (Fail e), w))"

text \<open>\<^verbatim>\<open>Effect.map(f)\<close>: the callback \<open>f\<close> returns or throws; what it throws is a defect.\<close>

definition Effect_map :: "('a \<Rightarrow> js_thrown + 'b) \<Rightarrow> ('a, 'e) Effect \<Rightarrow> ('b, 'e) Effect" where
  "Effect_map f self =
     (\<lambda>w. case self w of
             (Inl c, w') \<Rightarrow> (Inl c, w')
           | (Inr a, w') \<Rightarrow> (case f a of Inl t \<Rightarrow> (Inl (Die t), w') | Inr b \<Rightarrow> (Inr b, w')))"

definition Effect_flatMap :: "('a \<Rightarrow> ('b, 'e) Effect) \<Rightarrow> ('a, 'e) Effect \<Rightarrow> ('b, 'e) Effect" where
  "Effect_flatMap f self =
     (\<lambda>w. case self w of (Inl c, w') \<Rightarrow> (Inl c, w') | (Inr a, w') \<Rightarrow> f a w')"

text \<open>\<^verbatim>\<open>Effect.catchAll(f)\<close> handles a failure and lets a defect through.\<close>

definition Effect_catchAll :: "('e \<Rightarrow> ('a, 'f) Effect) \<Rightarrow> ('a, 'e) Effect \<Rightarrow> ('a, 'f) Effect" where
  "Effect_catchAll f self =
     (\<lambda>w. case self w of
             (Inl (Fail e), w') \<Rightarrow> f e w'
           | (Inl (Die t), w') \<Rightarrow> (Inl (Die t), w')
           | (Inr a, w') \<Rightarrow> (Inr a, w'))"

text \<open>\<^verbatim>\<open>yield*\<close> inside \<^verbatim>\<open>Effect.gen\<close>: run the effect, pass its value to the rest of the generator.\<close>

definition yield :: "('a, 'e) Effect \<Rightarrow> ('a \<Rightarrow> ('b, 'e) Effect) \<Rightarrow> ('b, 'e) Effect" where
  "yield self rest = Effect_flatMap rest self"

text \<open>
  \<^verbatim>\<open>return e\<close> at the end of a generator, for an expression \<open>e\<close> that returns or throws: what
  the body of a generator throws is a defect.
\<close>

definition gen_return :: "js_thrown + 'a \<Rightarrow> ('a, 'e) Effect" where
  "gen_return r = (\<lambda>w. case r of Inl t \<Rightarrow> (Inl (Die t), w) | Inr a \<Rightarrow> (Inr a, w))"

text \<open>
  Plain code that returns or throws, as the thunk of \<^verbatim>\<open>Effect.try\<close>: from a state, the value
  returned or the value thrown, and the state after.
\<close>

type_synonym 'a js = "World \<Rightarrow> (js_thrown + 'a) \<times> World"

definition js_return :: "'a \<Rightarrow> 'a js" where
  "js_return a = (\<lambda>w. (Inr a, w))"

definition js_throw :: "js_thrown \<Rightarrow> 'a js" where
  "js_throw t = (\<lambda>w. (Inl t, w))"

definition js_then :: "'a js \<Rightarrow> ('a \<Rightarrow> 'b js) \<Rightarrow> 'b js" where
  "js_then first rest =
     (\<lambda>w. case first w of (Inl t, w') \<Rightarrow> (Inl t, w') | (Inr a, w') \<Rightarrow> rest a w')"

definition returned :: "js_thrown + 'a \<Rightarrow> 'a js" where
  "returned r = (\<lambda>w. (r, w))"

text \<open>
  \<^verbatim>\<open>Effect.try({ try, catch })\<close>: what the thunk throws is mapped by \<^verbatim>\<open>catch\<close> into the
  failure of the effect.
\<close>

definition Effect_try :: "'a js \<Rightarrow> (js_thrown \<Rightarrow> 'e) \<Rightarrow> ('a, 'e) Effect" where
  "Effect_try try catch =
     (\<lambda>w. case try w of (Inl t, w') \<Rightarrow> (Inl (Fail (catch t)), w') | (Inr a, w') \<Rightarrow> (Inr a, w'))"

text \<open>\<^verbatim>\<open>self.pipe(f, g, ...)\<close>.\<close>

definition pipe1 :: "'a \<Rightarrow> ('a \<Rightarrow> 'b) \<Rightarrow> 'b" where
  "pipe1 self f = f self"

definition pipe2 :: "'a \<Rightarrow> ('a \<Rightarrow> 'b) \<Rightarrow> ('b \<Rightarrow> 'c) \<Rightarrow> 'c" where
  "pipe2 self f g = g (f self)"

definition pipe3 :: "'a \<Rightarrow> ('a \<Rightarrow> 'b) \<Rightarrow> ('b \<Rightarrow> 'c) \<Rightarrow> ('c \<Rightarrow> 'd) \<Rightarrow> 'd" where
  "pipe3 self f g h = h (g (f self))"

definition pipe4 :: "'a \<Rightarrow> ('a \<Rightarrow> 'b) \<Rightarrow> ('b \<Rightarrow> 'c) \<Rightarrow> ('c \<Rightarrow> 'd) \<Rightarrow> ('d \<Rightarrow> 'e) \<Rightarrow> 'e" where
  "pipe4 self f g h k = k (h (g (f self)))"

subsection \<open>Calls of the platform\<close>

definition localStorage_getItem :: "string \<Rightarrow> (string option) js" where
  "localStorage_getItem key =
     (\<lambda>w. case unavailable (localStorage w) of
             Some t \<Rightarrow> (Inl t, w)
           | None \<Rightarrow> (Inr (items (localStorage w) key), w))"

definition localStorage_setItem :: "string \<Rightarrow> string \<Rightarrow> unit js" where
  "localStorage_setItem key v =
     (\<lambda>w. case unavailable (localStorage w) of
             Some t \<Rightarrow> (Inl t, w)
           | None \<Rightarrow>
               (case rejects (localStorage w) key v of
                  Some t \<Rightarrow> (Inl t, w)
                | None \<Rightarrow>
                    (Inr (),
                     w\<lparr>localStorage := (localStorage w)\<lparr>items := (items (localStorage w))(key \<mapsto> v)\<rparr>\<rparr>)))"

definition localStorage_removeItem :: "string \<Rightarrow> unit js" where
  "localStorage_removeItem key =
     (\<lambda>w. case unavailable (localStorage w) of
             Some t \<Rightarrow> (Inl t, w)
           | None \<Rightarrow>
               (Inr (),
                w\<lparr>localStorage := (localStorage w)\<lparr>items := (items (localStorage w))(key := None)\<rparr>\<rparr>))"

definition console_log :: "string \<Rightarrow> js_value \<Rightarrow> (unit, 'e) Effect" where
  "console_log label v = (\<lambda>w. (Inr (), w\<lparr>console := console w @ [(label, v)]\<rparr>))"

text \<open>
  \<^verbatim>\<open>users[index] = user\<close> on the module-level array, for an \<open>index\<close> that \<^verbatim>\<open>findIndex\<close>
  returned: an index of an element, or \<open>-1\<close> (\<open>findIndex_range\<close>). Assigning at \<open>-1\<close> sets the
  property \<^verbatim>\<open>"-1"\<close> of the array object, which is no element: length and elements stay.
\<close>

definition users_assign :: "int \<Rightarrow> User \<Rightarrow> World \<Rightarrow> World" where
  "users_assign index user w =
     (if index < 0 then w\<lparr>users_props := (users_props w)(show_int index \<mapsto> user)\<rparr>
      else w\<lparr>users := (users w)[nat index := user]\<rparr>)"

section \<open>\<^verbatim>\<open>part_001\<close>: store service, two repositories, layer selection\<close>

text \<open>
  The type parameter \<^verbatim>\<open>T\<close> of \<^verbatim>\<open>getItem\<close> and \<^verbatim>\<open>setItem\<close> is erased: the service carries
  values. The results of the repository are declared \<^verbatim>\<open>User | undefined\<close> and
  \<^verbatim>\<open>Array<User>\<close>; at run time they are \<^verbatim>\<open>undefined\<close> (\<open>None\<close>) or a value.
\<close>

record LocalStorageService_001 =
  getItem_001 :: "string \<Rightarrow> (json option, LocalStorageError) Effect"
  setItem_001 :: "string \<Rightarrow> json \<Rightarrow> (unit, LocalStorageError) Effect"
  removeItem_001 :: "string \<Rightarrow> (unit, LocalStorageError) Effect"

record UserRepository_001 =
  update_001 :: "User \<Rightarrow> (unit, UserRepositoryError) Effect"
  findById_001 :: "54 word \<Rightarrow> (json option, UserRepositoryError) Effect"
  findAll_001 :: "(json, UserRepositoryError) Effect"

text \<open>
  \<^verbatim>\<open>getItem\<close> returns \<^verbatim>\<open>undefined\<close> (\<open>None\<close>) when \<^verbatim>\<open>!item\<close>, that is when the store has no
  such key (\<^verbatim>\<open>null\<close>) or holds the empty string; otherwise it parses the text.
\<close>

definition localStorageServiceLive_001 :: "JSON \<Rightarrow> LocalStorageService_001" where
  "localStorageServiceLive_001 J =
     \<lparr>getItem_001 = (\<lambda>key.
        Effect_try
          (js_then (localStorage_getItem key) (\<lambda>item.
             case item of
               None \<Rightarrow> js_return None
             | Some text \<Rightarrow>
                 if text = [] then js_return None
                 else js_then (returned (JSON_parse J text)) (\<lambda>v. js_return (Some v))))
          (\<lambda>error. parseError error)),
      setItem_001 = (\<lambda>key value.
        Effect_try
          (js_then (js_return (JSON_stringify value)) (\<lambda>stringifiedValue.
             localStorage_setItem key stringifiedValue))
          (\<lambda>error. stringifyError error)),
      removeItem_001 = (\<lambda>key.
        Effect_try (localStorage_removeItem key) (\<lambda>error. parseError error))\<rparr>"

text \<open>
  The callbacks of \<^verbatim>\<open>Effect.map\<close> work on whatever value \<^verbatim>\<open>getItem\<close> returned: \<^verbatim>\<open>users.find\<close>
  and \<^verbatim>\<open>users.findIndex\<close> throw on a value that is no array, and the callback
  \<^verbatim>\<open>user.id === id\<close> throws on the element \<^verbatim>\<open>null\<close>. \<^verbatim>\<open>{ ...user }\<close> is the object of \<open>user\<close>.
\<close>

definition userLocalStorageRepository :: "LocalStorageService_001 \<Rightarrow> UserRepository_001" where
  "userLocalStorageRepository localStorageService =
     \<lparr>update_001 = (\<lambda>user.
        yield
          (pipe4 (getItem_001 localStorageService ''users'')
             (Effect_map (\<lambda>users. Inr (or_empty users)))
             (Effect_map (\<lambda>users.
                case json_findIndex (\<lambda>u. id_equals (user_id user) u) users of
                  Inl t \<Rightarrow> Inl t
                | Inr index \<Rightarrow>
                    if index = - 1 then Inr users
                    else Inr (JArray (take (nat index) (elements users) @ [json_of_User user]
                                      @ drop (nat (index + 1)) (elements users)))))
             (Effect_flatMap (\<lambda>users. setItem_001 localStorageService ''users'' users))
             (Effect_catchAll (\<lambda>_. Effect_succeed ())))
          Effect_succeed),
      findById_001 = (\<lambda>id.
        yield
          (pipe3 (getItem_001 localStorageService ''users'')
             (Effect_map (\<lambda>users. Inr (or_empty users)))
             (Effect_catchAll (\<lambda>_. Effect_succeed (JArray [])))
             (Effect_map (\<lambda>users. json_find (\<lambda>user. id_equals id user) users)))
          Effect_succeed),
      findAll_001 =
        yield
          (pipe2 (getItem_001 localStorageService ''users'')
             (Effect_map (\<lambda>users. Inr (or_empty users)))
             (Effect_catchAll (\<lambda>_. Effect_succeed (JArray []))))
          Effect_succeed\<rparr>"

text \<open>The seed of the module-level array \<^verbatim>\<open>users\<close>, the same in \<^verbatim>\<open>part_000\<close> and \<^verbatim>\<open>part_001\<close>.\<close>

definition users_seed :: "User list" where
  "users_seed = [\<lparr>user_id = 1, name = ''User 1''\<rparr>, \<lparr>user_id = 2, name = ''User 2''\<rparr>]"

text \<open>
  The module-level array holds values of the type \<^verbatim>\<open>User\<close>: the seed, and what \<^verbatim>\<open>update\<close> is
  given. The arguments of \<^verbatim>\<open>Effect.succeed\<close> are evaluated in the state of the call. The
  assignment in \<^verbatim>\<open>update\<close> has the value \<^verbatim>\<open>user\<close>, which the declared result type \<^verbatim>\<open>void\<close>
  discards.
\<close>

definition inMemoryUserRepository :: UserRepository_001 where
  "inMemoryUserRepository =
     \<lparr>update_001 = (\<lambda>user w.
        Effect_succeed ()
          (users_assign (findIndex (\<lambda>u. user_id u = user_id user) (users w)) user w)),
      findById_001 = (\<lambda>id w.
        Effect_succeed (map_option json_of_User (find (\<lambda>user. user_id user = id) (users w))) w),
      findAll_001 = (\<lambda>w. Effect_succeed (json_of_Users (users w)) w)\<rparr>"

text \<open>
  A layer binds the repository interface to an implementation; building either layer has
  no effect of its own. The store service is provided to the persisted repository.
\<close>

definition userLocalStorageRepositoryLayer :: "JSON \<Rightarrow> UserRepository_001" where
  "userLocalStorageRepositoryLayer J = userLocalStorageRepository (localStorageServiceLive_001 J)"

definition inMemoryUserRepositoryLayer :: UserRepository_001 where
  "inMemoryUserRepositoryLayer = inMemoryUserRepository"

definition selectUserRepositoryLayer :: "JSON \<Rightarrow> bool \<Rightarrow> UserRepository_001" where
  "selectUserRepositoryLayer J isDevelopment =
     (if isDevelopment then inMemoryUserRepositoryLayer else userLocalStorageRepositoryLayer J)"

definition main_001 :: "UserRepository_001 \<Rightarrow> (unit, UserRepositoryError) Effect" where
  "main_001 userRepository =
     yield (findById_001 userRepository 1) (\<lambda>userWithError.
     yield (findById_001 userRepository 2) (\<lambda>user2.
     yield (findAll_001 userRepository) (\<lambda>all.
     yield (console_log ''user1'' (or_undefined userWithError)) (\<lambda>_.
     yield (console_log ''user2'' (or_undefined user2)) (\<lambda>_.
     console_log ''all'' (JsDefined all))))))"

text \<open>
  The last line of \<^verbatim>\<open>part_001\<close>; \<open>BUN_ENV\<close> is the value of \<^verbatim>\<open>process.env.BUN_ENV\<close>, \<open>None\<close>
  when the variable is not set.
\<close>

definition run_001 :: "JSON \<Rightarrow> string option \<Rightarrow> (unit, UserRepositoryError) Effect" where
  "run_001 J BUN_ENV = main_001 (selectUserRepositoryLayer J (BUN_ENV = Some ''development''))"

section \<open>\<^verbatim>\<open>part_000\<close>: the stricter store service\<close>

record LocalStorageService_000 =
  getItem_000 :: "string \<Rightarrow> (json, LocalStorageError) Effect"
  setItem_000 :: "string \<Rightarrow> json \<Rightarrow> (unit, LocalStorageError) Effect"
  removeItem_000 :: "string \<Rightarrow> (unit, LocalStorageError) Effect"

record UserRepository_000 =
  findById_000 :: "54 word \<Rightarrow> (json option, UserRepositoryError) Effect"
  findAll_000 :: "(json, UserRepositoryError) Effect"

text \<open>Here \<^verbatim>\<open>getItem\<close> throws \<^verbatim>\<open>LocalStorageError.NotFound(key)\<close> inside the thunk when \<^verbatim>\<open>!item\<close>.\<close>

definition localStorageServiceLive_000 :: "JSON \<Rightarrow> LocalStorageService_000" where
  "localStorageServiceLive_000 J =
     \<lparr>getItem_000 = (\<lambda>key.
        Effect_try
          (js_then (localStorage_getItem key) (\<lambda>item.
             case item of
               None \<Rightarrow> js_throw (ThrownLocalStorageError (LocalStorageError_NotFound key))
             | Some text \<Rightarrow>
                 if text = [] then js_throw (ThrownLocalStorageError (LocalStorageError_NotFound key))
                 else returned (JSON_parse J text)))
          (\<lambda>error. parseError error)),
      setItem_000 = (\<lambda>key value.
        Effect_try
          (js_then (js_return (JSON_stringify value)) (\<lambda>stringifiedValue.
             localStorage_setItem key stringifiedValue))
          (\<lambda>error. stringifyError error)),
      removeItem_000 = (\<lambda>key.
        Effect_try (localStorage_removeItem key) (\<lambda>error. parseError error))\<rparr>"

definition userInmemoryRepositoryLive :: UserRepository_000 where
  "userInmemoryRepositoryLive =
     \<lparr>findById_000 = (\<lambda>id w.
        let user = find (\<lambda>user. user_id user = id) (users w)
        in Effect_succeed (map_option json_of_User user) w),
      findAll_000 = (\<lambda>w. Effect_succeed (json_of_Users (users w)) w)\<rparr>"

text \<open>
  \<^verbatim>\<open>users.find\<close> is called in the body of the generator, on whatever value \<^verbatim>\<open>getItem\<close>
  returned: the text \<^verbatim>\<open>null\<close> makes it throw.
\<close>

definition userLocalStorageRepositoryLive :: "JSON \<Rightarrow> UserRepository_000" where
  "userLocalStorageRepositoryLive J =
     \<lparr>findById_000 = (\<lambda>id.
        let localStorageService = localStorageServiceLive_000 J in
        yield
          (pipe1 (getItem_000 localStorageService ''users'')
             (Effect_catchAll (\<lambda>_. Effect_succeed (JArray []))))
          (\<lambda>users. gen_return (json_find (\<lambda>user. id_equals id user) users))),
      findAll_000 =
        (let localStorageService = localStorageServiceLive_000 J in
         yield
           (pipe1 (getItem_000 localStorageService ''users'')
              (Effect_catchAll (\<lambda>_. Effect_succeed (JArray []))))
           (\<lambda>users. gen_return (Inr users)))\<rparr>"

definition main_000 :: "UserRepository_000 \<Rightarrow> (unit, UserRepositoryError) Effect" where
  "main_000 userRepository =
     yield (findById_000 userRepository 1) (\<lambda>userWithError.
     yield (findById_000 userRepository 2) (\<lambda>user2.
     yield (findAll_000 userRepository) (\<lambda>all.
     yield (console_log ''user1'' (or_undefined userWithError)) (\<lambda>_.
     yield (console_log ''user2'' (or_undefined user2)) (\<lambda>_.
     console_log ''all'' (JsDefined all))))))"

definition run_000 :: "JSON \<Rightarrow> (unit, UserRepositoryError) Effect" where
  "run_000 J = main_000 (userLocalStorageRepositoryLive J)"

section \<open>\<^verbatim>\<open>Program.ts\<close>: a stub repository and an optional service\<close>

record 'e UserRepository_prog =
  findById_prog :: "54 word \<Rightarrow> (User, 'e) Effect"
  findAll_prog :: "(User list, 'e) Effect"

record 'e UserService =
  getUser :: "54 word \<Rightarrow> (User, 'e) Effect"

definition userRepositoryLive :: "'e UserRepository_prog" where
  "userRepositoryLive =
     \<lparr>findById_prog = (\<lambda>id. Effect_succeed \<lparr>user_id = id, name = ''User '' @ Number_toString id\<rparr>),
      findAll_prog =
        Effect_succeed [\<lparr>user_id = 1, name = ''User 1''\<rparr>, \<lparr>user_id = 2, name = ''User 2''\<rparr>]\<rparr>"


text \<open>
  \<open>userRepository\<close> is the required service; \<open>userService\<close> is what
  \<^verbatim>\<open>Effect.serviceOption(UserService)\<close> finds in the context: \<open>None\<close> when it is not provided.
\<close>

definition program :: "'e UserRepository_prog \<Rightarrow> 'e UserService option \<Rightarrow> (unit, 'e) Effect" where
  "program userRepository userService =
     yield
       (if Option.is_none userService
        then Effect_succeed \<lparr>user_id = 1, name = ''Optional User''\<rparr>
        else findById_prog userRepository 1) (\<lambda>user.
     yield (console_log ''userService'' (JsUser user)) (\<lambda>_.
     yield (findById_prog userRepository 2) (\<lambda>user2.
     console_log ''userRepository'' (JsUser user2))))"


section \<open>Notions used to state the properties\<close>

text \<open>
  The collection with the first record that has the id of \<open>u\<close> replaced by \<open>u\<close>, written
  after the words of the specification; the same collection when no record has that id.
\<close>

fun replace_first :: "User \<Rightarrow> User list \<Rightarrow> User list" where
  "replace_first u [] = []"
| "replace_first u (x # xs) = (if user_id x = user_id u then u # xs else x # replace_first u xs)"

text \<open>The text after a number does not go on with a digit.\<close>

definition no_digit_ahead :: "string \<Rightarrow> bool" where
  "no_digit_ahead rest = (case rest of [] \<Rightarrow> True | c # cs \<Rightarrow> \<not> is_digit c)"

section \<open>Concrete states to run the scripts on\<close>

text \<open>
  Two instances of the parameter of \<^verbatim>\<open>JSON.parse\<close>, one that throws on every text the reader
  above does not read, and one that returns \<^verbatim>\<open>null\<close> on them.
\<close>

definition JSON_strict :: JSON where
  "JSON_strict = \<lparr>JSON_parse_other = (\<lambda>text. Inl (ThrownError ''Unexpected token''))\<rparr>"

definition JSON_lenient :: JSON where
  "JSON_lenient = \<lparr>JSON_parse_other = (\<lambda>text. Inr JNull)\<rparr>"

text \<open>
  Stores: an empty one that works, one that holds the seed under \<^verbatim>\<open>"users"\<close>, one that holds
  the seed and rejects every write, one that is not available at all, one that holds the
  empty string under \<^verbatim>\<open>"users"\<close>, one whose text under \<^verbatim>\<open>"users"\<close> is no JSON text, and three
  whose text under \<^verbatim>\<open>"users"\<close> is a JSON text of something else than an array of users: an
  object, the value \<^verbatim>\<open>null\<close>, and an array with the element \<^verbatim>\<open>null\<close>.
\<close>

definition store_empty :: LocalStorage where
  "store_empty = \<lparr>unavailable = None, items = Map.empty, rejects = (\<lambda>key v. None)\<rparr>"

definition store_seeded :: LocalStorage where
  "store_seeded = store_empty\<lparr>items := [''users'' \<mapsto> JSON_stringify (json_of_Users users_seed)]\<rparr>"

definition store_full :: LocalStorage where
  "store_full = store_seeded\<lparr>rejects := (\<lambda>key v. Some (ThrownError ''QuotaExceededError''))\<rparr>"

definition store_missing :: LocalStorage where
  "store_missing = store_empty\<lparr>unavailable := Some (ThrownError ''localStorage is not defined'')\<rparr>"

definition store_blank :: LocalStorage where
  "store_blank = store_empty\<lparr>items := [''users'' \<mapsto> []]\<rparr>"





definition world_of :: "LocalStorage \<Rightarrow> World" where
  "world_of store =
     \<lparr>localStorage = store, users = users_seed, users_props = Map.empty, console = []\<rparr>"

section \<open>Auxiliary facts\<close>

subsection \<open>Numbers: the reader reads what \<^verbatim>\<open>Number::toString\<close> writes\<close>

lemma digit_cases: "d < 10 \<Longrightarrow> d \<in> {0, 1, 2, 3, 4, 5, 6, 7, 8, 9 :: nat}"
  by auto

lemma digit_is_digit: "d < 10 \<Longrightarrow> is_digit (digit d)"
  using digit_cases [of d] by (auto simp: digit_def is_digit_def)

lemma digit_value: "d < 10 \<Longrightarrow> (of_char (digit d) :: int) - 48 = int d"
  using digit_cases [of d] by (auto simp: digit_def)

lemma digit_zero: "d < 10 \<Longrightarrow> digit d = CHR ''0'' \<longleftrightarrow> d = 0"
  using digit_cases [of d] by (auto simp: digit_def)

lemma is_digit_not_minus: "is_digit c \<Longrightarrow> c \<noteq> CHR ''-''"
  by (auto simp: is_digit_def)

lemma show_nat_0: "show_nat 0 = ''0''"
  by (simp add: show_nat.simps [of 0] digit_def)

lemma show_nat_head:
  "\<exists>c cs. show_nat n = c # cs \<and> is_digit c \<and> (0 < n \<longrightarrow> c \<noteq> CHR ''0'')"
proof (induction n rule: show_nat.induct)
  case (1 n)
  show ?case
  proof (cases "n < 10")
    case True
    then show ?thesis
      by (simp add: show_nat.simps [of n] digit_is_digit digit_zero)
  next
    case False
    then have "0 < n div 10" by simp
    with 1 False obtain c cs where "show_nat (n div 10) = c # cs" "is_digit c" "c \<noteq> CHR ''0''"
      by auto
    with False show ?thesis by (simp add: show_nat.simps [of n])
  qed
qed

lemma read_digits_show_nat:
  "read_digits (show_nat n @ rest) acc =
     read_digits rest (acc * 10 ^ length (show_nat n) + int n)"
proof (induction n arbitrary: rest acc rule: show_nat.induct)
  case (1 n)
  show ?case
  proof (cases "n < 10")
    case True
    then show ?thesis
      by (simp add: show_nat.simps [of n] digit_is_digit digit_value mult.commute)
  next
    case False
    have "read_digits (show_nat n @ rest) acc
        = read_digits (show_nat (n div 10) @ (digit (n mod 10) # rest)) acc"
      using False by (simp add: show_nat.simps [of n])
    also have "\<dots> = read_digits (digit (n mod 10) # rest)
                       (acc * 10 ^ length (show_nat (n div 10)) + int (n div 10))"
      by (rule "1.IH" [OF False])
    also have "\<dots> = read_digits rest
                       (10 * (acc * 10 ^ length (show_nat (n div 10)) + int (n div 10))
                        + int (n mod 10))"
      by (simp add: digit_is_digit digit_value)
    also have "10 * (acc * 10 ^ length (show_nat (n div 10)) + int (n div 10)) + int (n mod 10)
        = acc * 10 ^ length (show_nat n) + int n"
    proof -
      have "int n = 10 * int (n div 10) + int (n mod 10)"
        by (simp add: zdiv_int zmod_int)
      then show ?thesis using False by (simp add: show_nat.simps [of n] algebra_simps)
    qed
    finally show ?thesis .
  qed
qed

lemma read_digits_stop: "no_digit_ahead rest \<Longrightarrow> read_digits rest acc = (acc, rest)"
  by (cases rest) (auto simp: no_digit_ahead_def)

lemma read_nat_show_nat:
  assumes "no_digit_ahead rest"
  shows "read_nat (show_nat n @ rest) = Some (int n, rest)"
proof (cases "n = 0")
  case True
  then show ?thesis by (simp add: show_nat_0 read_nat_def)
next
  case False
  then obtain c cs where h: "show_nat n = c # cs" "is_digit c" "c \<noteq> CHR ''0''"
    using show_nat_head [of n] by auto
  have "read_digits (show_nat n @ rest) 0 = (int n, rest)"
    using read_digits_stop [OF assms] by (simp add: read_digits_show_nat)
  with h show ?thesis by (simp add: read_nat_def del: read_digits.simps)
qed

lemma read_number_Number_toString:
  assumes "no_digit_ahead rest"
  shows "read_number (Number_toString n @ rest) = Some (n, rest)"
proof -
  have lo: "- 9007199254740992 \<le> sint n" using sint_ge [of n] by simp
  have hi: "sint n < 9007199254740992" using sint_lt [of n] by simp
  show ?thesis
  proof (cases "sint n < 0")
    case True
    let ?k = "nat (- sint n)"
    have k: "int ?k = - sint n" using True by simp
    have "read_nat (show_nat ?k @ rest) = Some (int ?k, rest)"
      by (rule read_nat_show_nat [OF assms])
    moreover have "word_of_int (sint n) = n" by simp
    ultimately show ?thesis
      using True lo k by (simp add: read_number_def Number_toString_def show_int_def)
  next
    case False
    let ?k = "nat (sint n)"
    have k: "int ?k = sint n" using False by simp
    obtain c cs where h: "show_nat ?k = c # cs" "is_digit c"
      using show_nat_head [of ?k] by blast
    have "read_nat (show_nat ?k @ rest) = Some (int ?k, rest)"
      by (rule read_nat_show_nat [OF assms])
    then have rn: "read_nat (c # cs @ rest) = Some (sint n, rest)"
      unfolding k using h by simp
    have w: "word_of_int (sint n) = n" by simp
    have "read_number (c # cs @ rest) = Some (n, rest)"
      using rn hi w h(2) by (simp add: read_number_def is_digit_not_minus)
    then show ?thesis
      using False h(1) by (simp add: Number_toString_def show_int_def)
  qed
qed

lemma Number_toString_head:
  "\<exists>c cs. Number_toString n = c # cs \<and> (c = CHR ''-'' \<or> is_digit c)"
  using show_nat_head [of "nat (sint n)"] by (auto simp: Number_toString_def show_int_def)

subsection \<open>Strings: the reader reads what \<^verbatim>\<open>JSON.stringify\<close> writes\<close>

lemma hex_cases: "d < 16 \<Longrightarrow> d \<in> {0, 1, 2, 3, 4, 5, 6, 7, 8, 9, 10, 11, 12, 13, 14, 15 :: nat}"
  by simp arith

lemma hex_value_hex_digit: "d < 16 \<Longrightarrow> hex_value (hex_digit d) = Some d"
  using hex_cases [of d] by (auto simp: hex_value_def hex_digit_def is_digit_def)

lemma hex_value_0: "hex_value CHR ''0'' = Some 0"
  by (simp add: hex_value_def is_digit_def)

lemma read_escaped_char:
  assumes "read_string_body rest = Some (s, r)"
  shows "read_string_body (escape_char c @ rest) = Some (c # s, r)"
proof -
  let ?n = "of_char c :: nat"
  consider (quote) "c = dquote \<or> c = backslash"
    | (named) "c \<in> {CHR 0x08, CHR 0x09, CHR 0x0A, CHR 0x0C, CHR 0x0D}"
    | (control) "c \<noteq> dquote" "c \<noteq> backslash"
        "c \<notin> {CHR 0x08, CHR 0x09, CHR 0x0A, CHR 0x0C, CHR 0x0D}" "?n < 32"
    | (plain) "c \<noteq> dquote" "c \<noteq> backslash"
        "c \<notin> {CHR 0x08, CHR 0x09, CHR 0x0A, CHR 0x0C, CHR 0x0D}" "\<not> ?n < 32"
    by blast
  then show ?thesis
  proof cases
    case quote
    then show ?thesis
      using assms by (auto simp: escape_char_def unescape_def dquote_def backslash_def)
  next
    case named
    then show ?thesis
      using assms by (auto simp: escape_char_def unescape_def dquote_def backslash_def)
  next
    case control
    have d: "?n div 16 < 16" "?n mod 16 < 16" using control(4) by auto
    have "16 * (?n div 16) + ?n mod 16 = ?n" by simp
    then have c: "char_of (16 * (?n div 16) + ?n mod 16) = c" by simp
    show ?thesis
      using control assms c
      by (simp add: escape_char_def hex_value_hex_digit [OF d(1)] hex_value_hex_digit [OF d(2)]
          hex_value_0 backslash_def dquote_def)
  next
    case plain
    then show ?thesis
      using assms by (simp add: escape_char_def)
  qed
qed

lemma read_string_body_escaped:
  "read_string_body (concat (map escape_char s) @ dquote # rest) = Some (s, rest)"
proof (induction s)
  case Nil
  then show ?case by simp
next
  case (Cons c s)
  then show ?case using read_escaped_char [of _ s rest c] by simp
qed

lemma read_quoted:
  "read_string_body (tl (quote_string s) @ rest) = Some (s, rest)"
  using read_string_body_escaped [of s rest] by (simp add: quote_string_def)

lemma quote_string_Cons: "quote_string s = dquote # tl (quote_string s)"
  by (simp add: quote_string_def)

subsection \<open>User objects and arrays of them\<close>

lemma expect_prefix: "expect p (p @ r) = Some r"
  by (simp add: expect_def)

lemma expect_Cons: "expect [c] (d # r) = (if c = d then Some r else None)"
  by (auto simp: expect_def)

lemma stringify_user:
  "JSON_stringify (json_of_User u) =
     ''{'' @ quote_string ''id'' @ '':'' @ Number_toString (user_id u) @ '',''
     @ quote_string ''name'' @ '':'' @ quote_string (name u) @ ''}''"
  by (simp add: json_of_User_def)

lemma quote_id: "quote_string ''id'' = dquote # ''id'' @ [dquote]"
  by (simp add: quote_string_def escape_char_def dquote_def backslash_def)

lemma quote_name: "quote_string ''name'' = dquote # ''name'' @ [dquote]"
  by (simp add: quote_string_def escape_char_def dquote_def backslash_def)

lemma read_id_key: "read_string_body (''id'' @ dquote # r) = Some (''id'', r)"
  by (simp add: dquote_def backslash_def)

lemma read_name_key: "read_string_body (''name'' @ dquote # r) = Some (''name'', r)"
  by (simp add: dquote_def backslash_def)

lemma read_value_number:
  assumes "no_digit_ahead rest"
  shows "read_value (Suc fuel) (Number_toString n @ rest) = Some (JNumber n, rest)"
proof -
  obtain c cs where h: "Number_toString n = c # cs" "c = CHR ''-'' \<or> is_digit c"
    using Number_toString_head by blast
  have "read_number (c # cs @ rest) = Some (n, rest)"
    using read_number_Number_toString [OF assms, of n] h(1) by simp
  moreover have "c \<noteq> CHR ''n''" "c \<noteq> CHR ''t''" "c \<noteq> CHR ''f''" "c \<noteq> dquote"
    "c \<noteq> CHR ''[''" "c \<noteq> CHR ''{''"
    using h(2) by (auto simp: is_digit_def dquote_def)
  ultimately show ?thesis using h(1) by simp
qed

lemma read_value_string:
  "read_value (Suc fuel) (quote_string s @ rest) = Some (JString s, rest)"
proof -
  have "quote_string s @ rest = dquote # (concat (map escape_char s) @ dquote # rest)"
    by (simp add: quote_string_def)
  then show ?thesis
    by (simp add: read_string_body_escaped) (simp add: dquote_def)
qed

lemma read_members_last:
  assumes "read_string_body r0 = Some (k, CHR '':'' # r2)"
    and "read_value fuel r2 = Some (v, CHR ''}'' # r4)"
  shows "read_members (Suc fuel) (dquote # r0) = Some ([(k, v)], r4)"
  using assms by (simp add: expect_Cons)

lemma read_members_more:
  assumes "read_string_body r0 = Some (k, CHR '':'' # r2)"
    and "read_value fuel r2 = Some (v, CHR '','' # r4)"
    and "read_members fuel r4 = Some (kvs, r5)"
  shows "read_members (Suc fuel) (dquote # r0) = Some ((k, v) # kvs, r5)"
  using assms by (simp add: expect_Cons)

lemma read_value_object:
  assumes "read_members fuel (dquote # r0) = Some (kvs, r)" and "plain_keys kvs"
  shows "read_value (Suc fuel) (CHR ''{'' # dquote # r0) = Some (JObject kvs, r)"
  using assms by (simp add: expect_Cons dquote_def)

lemma read_elements_last:
  assumes "read_value fuel s = Some (v, CHR '']'' # r)"
  shows "read_elements (Suc fuel) s = Some ([v], r)"
  using assms by (simp add: expect_Cons)

lemma read_elements_more:
  assumes "read_value fuel s = Some (v, CHR '','' # r)"
    and "read_elements fuel r = Some (vs, r')"
  shows "read_elements (Suc fuel) s = Some (v # vs, r')"
  using assms by (simp add: expect_Cons)

lemma read_value_array:
  assumes "read_elements fuel (c # r0) = Some (vs, r)" and "c \<noteq> CHR '']''"
  shows "read_value (Suc fuel) (CHR ''['' # c # r0) = Some (JArray vs, r)"
  using assms by (simp add: expect_Cons dquote_def)

lemma plain_keys_user: "plain_keys [(''id'', a), (''name'', b)]"
  by (simp add: plain_keys_def index_like_def is_digit_def)

lemma read_value_user:
  "read_value (Suc (Suc (Suc (Suc k)))) (JSON_stringify (json_of_User u) @ rest)
   = Some (json_of_User u, rest)"
proof -
  let ?name_value = "quote_string (name u) @ CHR ''}'' # rest"
  let ?name_member = "''name'' @ dquote # CHR '':'' # ?name_value"
  let ?id_value = "Number_toString (user_id u) @ CHR '','' # dquote # ?name_member"
  let ?id_member = "''id'' @ dquote # CHR '':'' # ?id_value"
  have shape: "JSON_stringify (json_of_User u) @ rest = CHR ''{'' # dquote # ?id_member"
    by (simp add: stringify_user quote_id quote_name)
  have name_value: "read_value (Suc k) ?name_value = Some (JString (name u), CHR ''}'' # rest)"
    by (rule read_value_string)
  have name_member:
    "read_members (Suc (Suc k)) (dquote # ?name_member) = Some ([(''name'', JString (name u))], rest)"
    by (rule read_members_last [OF read_name_key name_value])
  have id_value: "read_value (Suc (Suc k)) ?id_value
      = Some (JNumber (user_id u), CHR '','' # dquote # ?name_member)"
    by (rule read_value_number) (simp add: no_digit_ahead_def is_digit_def)
  have id_member:
    "read_members (Suc (Suc (Suc k))) (dquote # ?id_member)
     = Some ([(''id'', JNumber (user_id u)), (''name'', JString (name u))], rest)"
    by (rule read_members_more [OF read_id_key id_value name_member])
  have "read_value (Suc (Suc (Suc (Suc k)))) (CHR ''{'' # dquote # ?id_member)
     = Some (JObject [(''id'', JNumber (user_id u)), (''name'', JString (name u))], rest)"
    by (rule read_value_object [OF id_member plain_keys_user])
  then show ?thesis
    unfolding shape by (simp only: json_of_User_def)
qed

lemma stringify_user_head: "\<exists>r. JSON_stringify (json_of_User u) = CHR ''{'' # r"
  by (simp add: stringify_user)

lemma read_elements_users:
  "length us < fuel \<Longrightarrow>
     read_elements (Suc (Suc (Suc (Suc fuel))))
       (join_comma (map JSON_stringify (map json_of_User (u # us))) @ CHR '']'' # rest)
     = Some (map json_of_User (u # us), rest)"
proof (induction us arbitrary: u fuel)
  case Nil
  then obtain k where k: "fuel = Suc k" by (cases fuel) auto
  have "read_value (Suc (Suc (Suc (Suc k)))) (JSON_stringify (json_of_User u) @ CHR '']'' # rest)
      = Some (json_of_User u, CHR '']'' # rest)"
    by (rule read_value_user)
  then have "read_elements (Suc (Suc (Suc (Suc (Suc k)))))
      (JSON_stringify (json_of_User u) @ CHR '']'' # rest) = Some ([json_of_User u], rest)"
    by (rule read_elements_last)
  then show ?case using k by simp
next
  case (Cons v vs)
  then obtain k where k: "fuel = Suc k" "length vs < k" by (cases fuel) auto
  let ?tail = "join_comma (map JSON_stringify (map json_of_User (v # vs))) @ CHR '']'' # rest"
  have shape: "join_comma (map JSON_stringify (map json_of_User (u # v # vs))) @ CHR '']'' # rest
      = JSON_stringify (json_of_User u) @ CHR '','' # ?tail"
    by simp
  have first: "read_value (Suc (Suc (Suc (Suc k)))) (JSON_stringify (json_of_User u) @ CHR '','' # ?tail)
      = Some (json_of_User u, CHR '','' # ?tail)"
    by (rule read_value_user)
  have others: "read_elements (Suc (Suc (Suc (Suc k)))) ?tail = Some (map json_of_User (v # vs), rest)"
    by (rule Cons.IH [OF k(2)])
  have "read_elements (Suc (Suc (Suc (Suc (Suc k)))))
      (JSON_stringify (json_of_User u) @ CHR '','' # ?tail)
      = Some (json_of_User u # map json_of_User (v # vs), rest)"
    by (rule read_elements_more [OF first others])
  then show ?case unfolding shape using k(1) by simp
qed

subsection \<open>\<^verbatim>\<open>JSON.parse\<close> reads back every array of users\<close>

lemma stringify_user_length: "5 \<le> length (JSON_stringify (json_of_User u))"
  by (simp add: stringify_user quote_id)

lemma join_users_length:
  "5 * length us \<le> length (join_comma (map JSON_stringify (map json_of_User us)))"
proof (induction us rule: induct_list012)
  case 1
  then show ?case by simp
next
  case (2 x)
  then show ?case using stringify_user_length [of x] by simp
next
  case (3 x y zs)
  then show ?case using stringify_user_length [of x] by simp
qed

lemma join_users_head:
  "\<exists>r. join_comma (map JSON_stringify (map json_of_User (u # us))) = CHR ''{'' # r"
  using stringify_user_head [of u] by (cases us) auto

lemma read_text_users: "read_text (JSON_stringify (json_of_Users us)) = Some (json_of_Users us)"
proof (cases us)
  case Nil
  then show ?thesis by (simp add: read_text_def json_of_Users_def expect_def dquote_def)
next
  case (Cons u vs)
  let ?join = "join_comma (map JSON_stringify (map json_of_User (u # vs)))"
  obtain r where r: "?join = CHR ''{'' # r" using join_users_head by blast
  have len: "5 * length (u # vs) \<le> length ?join" by (rule join_users_length)
  have shape: "JSON_stringify (json_of_Users us) = CHR ''['' # ?join @ '']''"
    using Cons by (simp add: json_of_Users_def)
  obtain fuel where fuel: "length (CHR ''['' # ?join @ '']'') = Suc (Suc (Suc (Suc fuel)))"
    "length vs < fuel"
  proof -
    have "4 + (length vs + 1) \<le> length (CHR ''['' # ?join @ '']'')" using len by simp
    then obtain d where "length (CHR ''['' # ?join @ '']'') = 4 + (length vs + 1) + d"
      using le_Suc_ex by blast
    then have "length (CHR ''['' # ?join @ '']'') = Suc (Suc (Suc (Suc (length vs + 1 + d))))"
      by simp
    then show ?thesis using that [of "length vs + 1 + d"] by simp
  qed
  have "read_elements (Suc (Suc (Suc (Suc fuel)))) (?join @ CHR '']'' # []) =
      Some (map json_of_User (u # vs), [])"
    by (rule read_elements_users [OF fuel(2)])
  then have "read_elements (Suc (Suc (Suc (Suc fuel)))) (CHR ''{'' # r @ '']'') =
      Some (map json_of_User (u # vs), [])"
    by (simp only: r append_Cons)
  then have "read_value (Suc (Suc (Suc (Suc (Suc fuel))))) (CHR ''['' # CHR ''{'' # r @ '']'')
      = Some (JArray (map json_of_User (u # vs)), [])"
    by (rule read_value_array) simp
  moreover have "length (CHR ''['' # CHR ''{'' # r @ '']'') = Suc (Suc (Suc (Suc fuel)))"
    using fuel(1) by (simp only: r append_Cons)
  ultimately have "read_value (Suc (length (CHR ''['' # CHR ''{'' # r @ '']'')))
        (CHR ''['' # CHR ''{'' # r @ '']'')
      = Some (JArray (map json_of_User (u # vs)), [])"
    by (simp only:)
  then have "read_text (CHR ''['' # CHR ''{'' # r @ '']'')
      = Some (JArray (map json_of_User (u # vs)))"
    by (simp only: read_text_def option.case prod.case if_True refl)
  moreover have "JSON_stringify (json_of_Users us) = CHR ''['' # CHR ''{'' # r @ '']''"
    using shape by (simp only: r append_Cons)
  ultimately show ?thesis
    by (simp only: json_of_Users_def Cons)
qed

lemma JSON_parse_users: "JSON_parse J (JSON_stringify (json_of_Users us)) = Inr (json_of_Users us)"
  by (simp add: JSON_parse_def read_text_users)

lemma stringify_users_not_empty: "JSON_stringify (json_of_Users us) \<noteq> []"
  by (simp add: json_of_Users_def)

subsection \<open>Effects and platform calls, unfolded\<close>

lemmas effect_defs = Effect_succeed_def Effect_fail_def Effect_map_def Effect_flatMap_def
  Effect_catchAll_def yield_def gen_return_def Effect_try_def pipe1_def pipe2_def pipe3_def
  pipe4_def js_return_def js_throw_def js_then_def returned_def

lemmas platform_defs = localStorage_getItem_def localStorage_setItem_def
  localStorage_removeItem_def console_log_def

subsection \<open>The typed array\<close>

lemma findIndex_range:
  "findIndex p xs = - 1 \<or> (0 \<le> findIndex p xs \<and> findIndex p xs < int (length xs))"
  by (induction xs) (auto simp: Let_def)

lemma findIndex_absent: "findIndex p xs = - 1 \<longleftrightarrow> (\<forall>x \<in> set xs. \<not> p x)"
proof (induction xs)
  case Nil
  then show ?case by simp
next
  case (Cons x xs)
  have "findIndex p xs = - 1 \<or> 0 \<le> findIndex p xs"
    using findIndex_range [of p xs] by auto
  then show ?case using Cons by (auto simp: Let_def)
qed

lemma replace_first_update:
  "replace_first u xs =
     (let i = findIndex (\<lambda>x. user_id x = user_id u) xs in if i = - 1 then xs else xs[nat i := u])"
proof (induction xs)
  case Nil
  then show ?case by simp
next
  case (Cons x xs)
  have "0 \<le> findIndex (\<lambda>x. user_id x = user_id u) xs \<or> findIndex (\<lambda>x. user_id x = user_id u) xs = - 1"
    using findIndex_range [of "\<lambda>x. user_id x = user_id u" xs] by auto
  then show ?case using Cons
    by (auto simp: Let_def nat_add_distrib)
qed

lemma slice_replace:
  "(let index = findIndex (\<lambda>x. user_id x = user_id u) xs in
      if index = - 1 then xs else take (nat index) xs @ [u] @ drop (nat (index + 1)) xs)
   = replace_first u xs"
proof -
  let ?i = "findIndex (\<lambda>x. user_id x = user_id u) xs"
  show ?thesis
  proof (cases "?i = - 1")
    case True
    then show ?thesis by (simp add: replace_first_update)
  next
    case False
    then have r: "0 \<le> ?i" "?i < int (length xs)"
      using findIndex_range [of "\<lambda>x. user_id x = user_id u" xs] by auto
    then have "nat ?i < length xs" by simp
    then have "xs[nat ?i := u] = take (nat ?i) xs @ u # drop (Suc (nat ?i)) xs"
      by (rule upd_conv_take_nth_drop)
    moreover have "nat (?i + 1) = Suc (nat ?i)" using r by simp
    ultimately show ?thesis using False by (simp add: replace_first_update Let_def)
  qed
qed

lemma replace_first_absent:
  "user_id u \<notin> user_id ` set xs \<Longrightarrow> replace_first u xs = xs"
  by (induction xs) auto

lemma replace_first_present:
  "user_id u \<in> user_id ` set xs \<Longrightarrow>
     \<exists>i < length xs. user_id (xs ! i) = user_id u \<and> (\<forall>j < i. user_id (xs ! j) \<noteq> user_id u)
        \<and> replace_first u xs = xs[i := u]"
proof (induction xs)
  case Nil
  then show ?case by simp
next
  case (Cons x xs)
  show ?case
  proof (cases "user_id x = user_id u")
    case True
    then show ?thesis by (intro exI [of _ 0]) simp
  next
    case False
    with Cons.prems have "user_id u \<in> user_id ` set xs" by auto
    from Cons.IH [OF this] obtain i where i: "i < length xs" "user_id (xs ! i) = user_id u"
      "\<forall>j < i. user_id (xs ! j) \<noteq> user_id u" "replace_first u xs = xs[i := u]" by blast
    have "\<forall>j < Suc i. user_id ((x # xs) ! j) \<noteq> user_id u"
      using False i(3) by (auto simp: less_Suc_eq_0_disj)
    with i False show ?thesis by (intro exI [of _ "Suc i"]) simp
  qed
qed

lemma find_present:
  "i \<in> user_id ` set xs \<Longrightarrow> \<exists>u. find (\<lambda>user. user_id user = i) xs = Some u \<and> user_id u = i"
  by (induction xs) auto

lemma find_absent:
  "i \<notin> user_id ` set xs \<Longrightarrow> find (\<lambda>user. user_id user = i) xs = None"
  by (induction xs) auto

subsection \<open>The operations of JavaScript on an array of user objects\<close>

lemma json_of_User_inject: "json_of_User u = json_of_User v \<longleftrightarrow> u = v"
  by (cases u, cases v) (simp add: json_of_User_def)

lemma json_of_Users_inject: "json_of_Users us = json_of_Users vs \<longleftrightarrow> us = vs"
proof -
  have "inj json_of_User" by (simp add: inj_on_def json_of_User_inject)
  then show ?thesis by (simp add: json_of_Users_def inj_map_eq_map)
qed

lemma id_equals_user: "id_equals i (json_of_User x) = Inr (user_id x = i)"
  by (simp add: id_equals_def json_of_User_def)

lemma Array_find_users:
  "Array_find (id_equals i) (map json_of_User c)
   = Inr (map_option json_of_User (find (\<lambda>user. user_id user = i) c))"
  by (induction c) (simp_all add: id_equals_user)

lemma Array_findIndex_users:
  "Array_findIndex (id_equals i) (map json_of_User c) = Inr (findIndex (\<lambda>x. user_id x = i) c)"
  by (induction c) (simp_all add: id_equals_user Let_def)

lemma json_find_users:
  "json_find (id_equals i) (json_of_Users c)
   = Inr (map_option json_of_User (find (\<lambda>user. user_id user = i) c))"
  by (simp add: json_find_def json_of_Users_def Array_find_users)

lemma json_findIndex_users:
  "json_findIndex (id_equals i) (json_of_Users c) = Inr (findIndex (\<lambda>x. user_id x = i) c)"
  by (simp add: json_findIndex_def json_of_Users_def Array_findIndex_users)

lemma or_empty_users: "or_empty (Some (json_of_Users c)) = json_of_Users c"
  by (simp add: or_empty_def truthy_def json_of_Users_def)

lemma or_empty_None: "or_empty None = json_of_Users []"
  by (simp add: or_empty_def json_of_Users_def)

lemma spliced_users:
  "(if findIndex (\<lambda>x. user_id x = user_id u) c = - 1 then json_of_Users c
    else JArray (take (nat (findIndex (\<lambda>x. user_id x = user_id u) c)) (elements (json_of_Users c))
                 @ [json_of_User u]
                 @ drop (nat (findIndex (\<lambda>x. user_id x = user_id u) c + 1))
                     (elements (json_of_Users c))))
   = json_of_Users (replace_first u c)"
proof -
  have "json_of_Users (replace_first u c) =
      (let index = findIndex (\<lambda>x. user_id x = user_id u) c in
         if index = - 1 then json_of_Users c
         else json_of_Users (take (nat index) c @ [u] @ drop (nat (index + 1)) c))"
    using slice_replace [of u c] by (auto simp: Let_def)
  then show ?thesis
    by (simp add: Let_def json_of_Users_def elements_def take_map drop_map)
qed

subsection \<open>The store services\<close>

lemma getItem_001_eq:
  "getItem_001 (localStorageServiceLive_001 J) key w =
     (case unavailable (localStorage w) of
        Some t \<Rightarrow> (Inl (Fail (parseError t)), w)
      | None \<Rightarrow>
          (case items (localStorage w) key of
             None \<Rightarrow> (Inr None, w)
           | Some text \<Rightarrow>
               if text = [] then (Inr None, w)
               else (case JSON_parse J text of
                       Inl t \<Rightarrow> (Inl (Fail (parseError t)), w)
                     | Inr v \<Rightarrow> (Inr (Some v), w))))"
  by (simp add: localStorageServiceLive_001_def effect_defs platform_defs
      split: option.splits sum.splits)

lemma getItem_000_eq:
  "getItem_000 (localStorageServiceLive_000 J) key w =
     (case unavailable (localStorage w) of
        Some t \<Rightarrow> (Inl (Fail (parseError t)), w)
      | None \<Rightarrow>
          (case items (localStorage w) key of
             None \<Rightarrow>
               (Inl (Fail (parseError (ThrownLocalStorageError (LocalStorageError_NotFound key)))), w)
           | Some text \<Rightarrow>
               if text = []
               then (Inl (Fail (parseError (ThrownLocalStorageError (LocalStorageError_NotFound key)))),
                     w)
               else (case JSON_parse J text of
                       Inl t \<Rightarrow> (Inl (Fail (parseError t)), w)
                     | Inr v \<Rightarrow> (Inr v, w))))"
  by (simp add: localStorageServiceLive_000_def effect_defs platform_defs
      split: option.splits sum.splits)

lemma setItem_001_eq:
  "setItem_001 (localStorageServiceLive_001 J) key v w =
     (case unavailable (localStorage w) of
        Some t \<Rightarrow> (Inl (Fail (stringifyError t)), w)
      | None \<Rightarrow>
          (case rejects (localStorage w) key (JSON_stringify v) of
             Some t \<Rightarrow> (Inl (Fail (stringifyError t)), w)
           | None \<Rightarrow>
               (Inr (),
                w\<lparr>localStorage :=
                    (localStorage w)\<lparr>items := (items (localStorage w))(key \<mapsto> JSON_stringify v)\<rparr>\<rparr>)))"
  by (simp add: localStorageServiceLive_001_def effect_defs platform_defs
      split: option.splits sum.splits)

lemma setItem_000_eq:
  "setItem_000 (localStorageServiceLive_000 J) key v w =
     setItem_001 (localStorageServiceLive_001 J) key v w"
  by (simp add: localStorageServiceLive_001_def localStorageServiceLive_000_def)

lemma getItem_001_cases:
  obtains e where "getItem_001 (localStorageServiceLive_001 J) key w = (Inl (Fail e), w)"
  | r where "getItem_001 (localStorageServiceLive_001 J) key w = (Inr r, w)"
proof -
  have "(\<exists>e. getItem_001 (localStorageServiceLive_001 J) key w = (Inl (Fail e), w))
      \<or> (\<exists>r. getItem_001 (localStorageServiceLive_001 J) key w = (Inr r, w))"
    by (simp add: getItem_001_eq split: option.splits sum.splits)
  then show ?thesis using that by blast
qed

lemma getItem_000_cases:
  obtains e where "getItem_000 (localStorageServiceLive_000 J) key w = (Inl (Fail e), w)"
  | v where "getItem_000 (localStorageServiceLive_000 J) key w = (Inr v, w)"
proof -
  have "(\<exists>e. getItem_000 (localStorageServiceLive_000 J) key w = (Inl (Fail e), w))
      \<or> (\<exists>v. getItem_000 (localStorageServiceLive_000 J) key w = (Inr v, w))"
    by (simp add: getItem_000_eq split: option.splits sum.splits)
  then show ?thesis using that by blast
qed

lemma setItem_001_cases:
  obtains e where "setItem_001 (localStorageServiceLive_001 J) key v w = (Inl (Fail e), w)"
  | w' where "setItem_001 (localStorageServiceLive_001 J) key v w = (Inr (), w')"
proof -
  have "(\<exists>e. setItem_001 (localStorageServiceLive_001 J) key v w = (Inl (Fail e), w))
      \<or> (\<exists>w'. setItem_001 (localStorageServiceLive_001 J) key v w = (Inr (), w'))"
    by (simp add: setItem_001_eq split: option.splits)
  then show ?thesis using that by blast
qed

lemma read_after_write_001:
  assumes "setItem_001 (localStorageServiceLive_001 J) key (json_of_Users v) w = (Inr (), w')"
  shows "getItem_001 (localStorageServiceLive_001 J) key w' = (Inr (Some (json_of_Users v)), w')"
  using assms
  by (auto simp: setItem_001_eq getItem_001_eq JSON_parse_users stringify_users_not_empty
      split: option.splits)

lemma read_after_write_000:
  assumes "setItem_000 (localStorageServiceLive_000 J) key (json_of_Users v) w = (Inr (), w')"
  shows "getItem_000 (localStorageServiceLive_000 J) key w' = (Inr (json_of_Users v), w')"
  using assms
  by (auto simp: setItem_000_eq setItem_001_eq getItem_000_eq JSON_parse_users
      stringify_users_not_empty split: option.splits)

subsection \<open>The persisted repositories\<close>

text \<open>What the repository of \<^verbatim>\<open>part_001\<close> works on: \<^verbatim>\<open>users || []\<close>, and \<^verbatim>\<open>[]\<close> after a failed read.\<close>

lemma findAll_001_persisted:
  "findAll_001 (userLocalStorageRepositoryLayer J) w =
     (Inr (case fst (getItem_001 (localStorageServiceLive_001 J) ''users'' w) of
             Inl c \<Rightarrow> JArray []
           | Inr r \<Rightarrow> or_empty r), w)"
  by (rule getItem_001_cases [of J "''users''" w])
     (simp_all add: userLocalStorageRepositoryLayer_def userLocalStorageRepository_def effect_defs)

lemma findById_001_persisted:
  assumes "fst (findAll_001 (userLocalStorageRepositoryLayer J) w) = Inr all"
  shows "findById_001 (userLocalStorageRepositoryLayer J) i w =
     ((case json_find (id_equals i) all of Inl t \<Rightarrow> Inl (Die t) | Inr x \<Rightarrow> Inr x), w)"
  using assms
  by (rule_tac getItem_001_cases [of J "''users''" w])
     (auto simp: findAll_001_persisted userLocalStorageRepositoryLayer_def
        userLocalStorageRepository_def effect_defs split: sum.splits)

lemma findAll_000_persisted:
  "findAll_000 (userLocalStorageRepositoryLive J) w =
     (Inr (case fst (getItem_000 (localStorageServiceLive_000 J) ''users'' w) of
             Inl c \<Rightarrow> JArray []
           | Inr v \<Rightarrow> v), w)"
  by (rule getItem_000_cases [of J "''users''" w])
     (simp_all add: userLocalStorageRepositoryLive_def effect_defs Let_def)

lemma findById_000_persisted:
  assumes "fst (findAll_000 (userLocalStorageRepositoryLive J) w) = Inr all"
  shows "findById_000 (userLocalStorageRepositoryLive J) i w =
     ((case json_find (id_equals i) all of Inl t \<Rightarrow> Inl (Die t) | Inr x \<Rightarrow> Inr x), w)"
  using assms
  by (rule_tac getItem_000_cases [of J "''users''" w])
     (auto simp: findAll_000_persisted userLocalStorageRepositoryLive_def effect_defs Let_def
        split: sum.splits)

lemma update_001_read_failed:
  assumes "isl (fst (getItem_001 (localStorageServiceLive_001 J) ''users'' w))"
  shows "update_001 (userLocalStorageRepositoryLayer J) u w = (Inr (), w)"
  using assms
  by (rule_tac getItem_001_cases [of J "''users''" w])
     (auto simp: userLocalStorageRepositoryLayer_def userLocalStorageRepository_def effect_defs)

lemma update_001_after_read:
  assumes "getItem_001 (localStorageServiceLive_001 J) ''users'' w = (Inr r, w)"
    and "json_findIndex (id_equals (user_id u)) (or_empty r) = Inr index"
  shows "update_001 (userLocalStorageRepositoryLayer J) u w =
     Effect_catchAll (\<lambda>_. Effect_succeed ())
       (setItem_001 (localStorageServiceLive_001 J) ''users''
          (if index = - 1 then or_empty r
           else JArray (take (nat index) (elements (or_empty r)) @ [json_of_User u]
                        @ drop (nat (index + 1)) (elements (or_empty r))))) w"
  by (simp add: userLocalStorageRepositoryLayer_def userLocalStorageRepository_def
      effect_defs assms split: prod.splits sum.splits cause.splits)


lemma update_001_users:
  assumes "fst (getItem_001 (localStorageServiceLive_001 J) ''users'' w) = Inr r"
    and "or_empty r = json_of_Users c"
  shows "update_001 (userLocalStorageRepositoryLayer J) u w =
     (Inr (),
      case setItem_001 (localStorageServiceLive_001 J) ''users''
             (json_of_Users (replace_first u c)) w of
        (Inl e, w') \<Rightarrow> w
      | (Inr x, w') \<Rightarrow> w')"
proof -
  have g: "getItem_001 (localStorageServiceLive_001 J) ''users'' w = (Inr r, w)"
    using assms(1) by (rule_tac getItem_001_cases [of J "''users''" w]) auto
  have "json_findIndex (id_equals (user_id u)) (or_empty r)
      = Inr (findIndex (\<lambda>x. user_id x = user_id u) c)"
    by (simp only: assms(2) json_findIndex_users)
  from update_001_after_read [OF g this]
  have "update_001 (userLocalStorageRepositoryLayer J) u w =
     Effect_catchAll (\<lambda>_. Effect_succeed ())
       (setItem_001 (localStorageServiceLive_001 J) ''users''
          (json_of_Users (replace_first u c))) w"
    by (simp only: assms(2) spliced_users)
  then show ?thesis
    by (rule_tac setItem_001_cases [of J "''users''" "json_of_Users (replace_first u c)" w])
       (simp_all add: Effect_catchAll_def Effect_succeed_def)
qed

lemma findAll_001_users:
  assumes "fst (findAll_001 (userLocalStorageRepositoryLayer J) w) = Inr (json_of_Users c)"
  obtains (unread) "isl (fst (getItem_001 (localStorageServiceLive_001 J) ''users'' w))" "c = []"
  | (read) r where "fst (getItem_001 (localStorageServiceLive_001 J) ''users'' w) = Inr r"
      "or_empty r = json_of_Users c"
proof (rule getItem_001_cases [of J "''users''" w])
  fix e
  assume g: "getItem_001 (localStorageServiceLive_001 J) ''users'' w = (Inl (Fail e), w)"
  with assms have "c = []" by (simp add: findAll_001_persisted json_of_Users_def)
  with g unread show ?thesis by simp
next
  fix r
  assume g: "getItem_001 (localStorageServiceLive_001 J) ''users'' w = (Inr r, w)"
  with assms have "or_empty r = json_of_Users c" by (simp add: findAll_001_persisted)
  with g read show ?thesis by simp
qed


subsection \<open>The in-memory repositories, the workflows\<close>

lemma findById_001_in_memory:
  "findById_001 inMemoryUserRepository i w =
     (Inr (map_option json_of_User (find (\<lambda>user. user_id user = i) (users w))), w)"
  by (simp add: inMemoryUserRepository_def Effect_succeed_def)

lemma findById_000_in_memory:
  "findById_000 userInmemoryRepositoryLive i w =
     (Inr (map_option json_of_User (find (\<lambda>user. user_id user = i) (users w))), w)"
  by (simp add: userInmemoryRepositoryLive_def Effect_succeed_def)

lemma findAll_001_in_memory:
  "findAll_001 inMemoryUserRepository w = (Inr (json_of_Users (users w)), w)"
  by (simp add: inMemoryUserRepository_def Effect_succeed_def)


lemma or_undefined_user: "or_undefined (map_option json_of_User x) = of_undefined x"
  by (cases x) (simp_all add: or_undefined_def of_undefined_def JsUser_def)

lemma main_001_console:
  assumes "findById_001 R 1 w = (Inr a, w)" and "findById_001 R 2 w = (Inr b, w)"
    and "findAll_001 R w = (Inr c, w)"
  shows "main_001 R w =
     (Inr (), w\<lparr>console := console w @
        [(''user1'', or_undefined a), (''user2'', or_undefined b), (''all'', JsDefined c)]\<rparr>)"
  using assms by (simp add: main_001_def yield_def Effect_flatMap_def console_log_def)


lemma main_001_died:
  assumes "findById_001 R 1 w = (Inl (Die t), w)
           \<or> (\<exists>a. findById_001 R 1 w = (Inr a, w)) \<and> findById_001 R 2 w = (Inl (Die t), w)"
  shows "main_001 R w = (Inl (Die t), w)"
  using assms by (auto simp: main_001_def yield_def Effect_flatMap_def)


lemma main_001_in_memory:
  "main_001 inMemoryUserRepository w =
     (Inr (), w\<lparr>console := console w @
        [(''user1'', of_undefined (find (\<lambda>user. user_id user = 1) (users w))),
         (''user2'', of_undefined (find (\<lambda>user. user_id user = 2) (users w))),
         (''all'', JsUsers (users w))]\<rparr>)"
  using main_001_console [OF findById_001_in_memory findById_001_in_memory findAll_001_in_memory]
  by (simp add: or_undefined_user JsUsers_def)


text \<open>The workflow on a persisted repository: three lines, or a defect and no line.\<close>

lemma main_001_persisted:
  "(\<exists>a b c. findById_001 (userLocalStorageRepositoryLayer J) 1 w = (Inr a, w)
       \<and> findById_001 (userLocalStorageRepositoryLayer J) 2 w = (Inr b, w)
       \<and> findAll_001 (userLocalStorageRepositoryLayer J) w = (Inr c, w)
       \<and> main_001 (userLocalStorageRepositoryLayer J) w =
           (Inr (), w\<lparr>console := console w @
              [(''user1'', or_undefined a), (''user2'', or_undefined b), (''all'', JsDefined c)]\<rparr>))
   \<or> (\<exists>t. main_001 (userLocalStorageRepositoryLayer J) w = (Inl (Die t), w))"
proof -
  let ?R = "userLocalStorageRepositoryLayer J"
  obtain c where c: "findAll_001 ?R w = (Inr c, w)"
    by (simp add: findAll_001_persisted)
  then have all: "fst (findAll_001 ?R w) = Inr c" by simp
  have look: "(\<exists>x. findById_001 ?R i w = (Inr x, w)) \<or> (\<exists>t. findById_001 ?R i w = (Inl (Die t), w))"
    for i
    by (cases "json_find (id_equals i) c") (simp_all add: findById_001_persisted [OF all])
  show ?thesis
    using look [of 1] look [of 2] c main_001_console [of ?R w] main_001_died [of ?R w]
    by metis
qed


lemma Number_toString_1: "Number_toString 1 = ''1''"
  by (simp add: Number_toString_def show_int_def show_nat.simps digit_def)

lemma Number_toString_2: "Number_toString 2 = ''2''"
  by (simp add: Number_toString_def show_int_def show_nat.simps digit_def)

lemma program_console:
  "program userRepositoryLive s w =
     (Inr (), w\<lparr>console := console w @
        [(''userService'',
          JsUser (if Option.is_none s then \<lparr>user_id = 1, name = ''Optional User''\<rparr>
                  else \<lparr>user_id = 1, name = ''User 1''\<rparr>)),
         (''userRepository'', JsUser \<lparr>user_id = 2, name = ''User 2''\<rparr>)]\<rparr>)"
  by (simp add: program_def userRepositoryLive_def yield_def Effect_flatMap_def console_log_def
      Effect_succeed_def Number_toString_1 Number_toString_2)

lemma update_001_in_memory:
  "update_001 inMemoryUserRepository u w =
     (Inr (), users_assign (findIndex (\<lambda>x. user_id x = user_id u) (users w)) u w)"
  by (simp add: inMemoryUserRepository_def Effect_succeed_def)

lemma users_after_update_in_memory:
  "users (snd (update_001 inMemoryUserRepository u w)) = replace_first u (users w)"
  using findIndex_range [of "\<lambda>x. user_id x = user_id u" "users w"]
  by (auto simp: update_001_in_memory users_assign_def replace_first_update Let_def)

lemma props_after_update_in_memory:
  "user_id u \<notin> user_id ` set (users w) \<Longrightarrow>
     users_props (snd (update_001 inMemoryUserRepository u w)) = (users_props w)(''-1'' \<mapsto> u)"
proof -
  assume "user_id u \<notin> user_id ` set (users w)"
  then have "\<forall>x \<in> set (users w). user_id x \<noteq> user_id u"
    by (metis imageI)
  then have "findIndex (\<lambda>x. user_id x = user_id u) (users w) = - 1"
    by (simp add: findIndex_absent)
  moreover have "show_int (- 1) = ''-1''"
    by (simp add: show_int_def show_nat.simps digit_def)
  ultimately show ?thesis
    by (simp add: update_001_in_memory users_assign_def)
qed

lemma findAll_001_state:
  "fst (findAll_001 (userLocalStorageRepositoryLayer J) w) = Inr c \<Longrightarrow>
     findAll_001 (userLocalStorageRepositoryLayer J) w = (Inr c, w)"
  by (simp add: findAll_001_persisted)


lemma findById_001_users:
  "fst (findAll_001 (userLocalStorageRepositoryLayer J) w) = Inr (json_of_Users c) \<Longrightarrow>
     findById_001 (userLocalStorageRepositoryLayer J) i w
       = (Inr (map_option json_of_User (find (\<lambda>user. user_id user = i) c)), w)"
  by (simp add: findById_001_persisted json_find_users)

lemma findById_000_users:
  "fst (findAll_000 (userLocalStorageRepositoryLive J) w) = Inr (json_of_Users c) \<Longrightarrow>
     findById_000 (userLocalStorageRepositoryLive J) i w
       = (Inr (map_option json_of_User (find (\<lambda>user. user_id user = i) c)), w)"
  by (simp add: findById_000_persisted json_find_users)

lemma main_001_users:
  assumes "fst (findAll_001 (userLocalStorageRepositoryLayer J) w) = Inr (json_of_Users c)"
  shows "main_001 (userLocalStorageRepositoryLayer J) w =
     (Inr (), w\<lparr>console := console w @
        [(''user1'', of_undefined (find (\<lambda>user. user_id user = 1) c)),
         (''user2'', of_undefined (find (\<lambda>user. user_id user = 2) c)),
         (''all'', JsUsers c)]\<rparr>)"
  using main_001_console [OF findById_001_users [OF assms] findById_001_users [OF assms]
      findAll_001_state [OF assms]]
  by (simp add: or_undefined_user JsUsers_def)


lemma seed_ids: "user_id ` set users_seed = {1, 2}"
  by (auto simp: users_seed_def)

lemma world_of_users: "users (world_of store) = users_seed"
  by (simp add: world_of_def)

section \<open>Properties of the repositories and of the store service\<close>




text \<open>
  C2, amended. In memory, for every state and every user \<open>u\<close>: \<^verbatim>\<open>update(u)\<close> succeeds; if a
  record with the id of \<open>u\<close> is in the array, one record of that id is replaced by \<open>u\<close> and
  every other element and the length stay; if none is, the elements of the array stay.
  Persisted (\<^verbatim>\<open>part_001\<close>), when the collection that \<^verbatim>\<open>findAll\<close> reads is an array \<open>c\<close> of user
  records: \<^verbatim>\<open>update(u)\<close> succeeds; if a record with the id of \<open>u\<close> is in \<open>c\<close> and the store
  accepts the write, \<^verbatim>\<open>findAll\<close> afterwards reads \<open>c\<close> with one record of that id replaced by
  \<open>u\<close>; if none is, \<^verbatim>\<open>findAll\<close> afterwards reads \<open>c\<close>; and if the store rejects the write,
  \<^verbatim>\<open>update(u)\<close> still succeeds and the state is unchanged.
\<close>

theorem update_replaces_present_record:
  "fst (update_001 inMemoryUserRepository u w) = Inr ()
   \<and> (user_id u \<in> user_id ` set (users w) \<longrightarrow>
        (\<exists>i < length (users w). user_id (users w ! i) = user_id u
            \<and> users (snd (update_001 inMemoryUserRepository u w)) = (users w)[i := u]))
   \<and> (user_id u \<notin> user_id ` set (users w) \<longrightarrow>
        users (snd (update_001 inMemoryUserRepository u w)) = users w)
   \<and> (\<forall>c. fst (findAll_001 (userLocalStorageRepositoryLayer J) w) = Inr (json_of_Users c) \<longrightarrow>
          fst (update_001 (userLocalStorageRepositoryLayer J) u w) = Inr ()
          \<and> (user_id u \<in> user_id ` set c \<longrightarrow>
               fst (setItem_001 (localStorageServiceLive_001 J) ''users''
                      (json_of_Users (replace_first u c)) w) = Inr () \<longrightarrow>
               (\<exists>i < length c. user_id (c ! i) = user_id u
                  \<and> fst (findAll_001 (userLocalStorageRepositoryLayer J)
                           (snd (update_001 (userLocalStorageRepositoryLayer J) u w)))
                      = Inr (json_of_Users (c[i := u]))))
          \<and> (user_id u \<notin> user_id ` set c \<longrightarrow>
               fst (findAll_001 (userLocalStorageRepositoryLayer J)
                     (snd (update_001 (userLocalStorageRepositoryLayer J) u w)))
                 = Inr (json_of_Users c))
          \<and> (isl (fst (setItem_001 (localStorageServiceLive_001 J) ''users''
                         (json_of_Users (replace_first u c)) w)) \<longrightarrow>
               update_001 (userLocalStorageRepositoryLayer J) u w = (Inr (), w)))"
proof -
  let ?R = "userLocalStorageRepositoryLayer J"
  let ?S = "localStorageServiceLive_001 J"
  have m0: "fst (update_001 inMemoryUserRepository u w) = Inr ()"
    by (simp add: update_001_in_memory)
  have m1: "user_id u \<in> user_id ` set (users w) \<longrightarrow>
        (\<exists>i < length (users w). user_id (users w ! i) = user_id u
            \<and> users (snd (update_001 inMemoryUserRepository u w)) = (users w)[i := u])"
    using replace_first_present [of u "users w"]
    by (auto simp: users_after_update_in_memory)
  have m2: "user_id u \<notin> user_id ` set (users w) \<longrightarrow>
        users (snd (update_001 inMemoryUserRepository u w)) = users w"
    by (simp add: users_after_update_in_memory replace_first_absent)
  have persisted:
    "fst (update_001 ?R u w) = Inr ()
     \<and> (fst (setItem_001 ?S ''users'' (json_of_Users (replace_first u c)) w) = Inr () \<or>
          replace_first u c = c \<longrightarrow>
          fst (findAll_001 ?R (snd (update_001 ?R u w))) = Inr (json_of_Users (replace_first u c)))
     \<and> (isl (fst (setItem_001 ?S ''users'' (json_of_Users (replace_first u c)) w)) \<longrightarrow>
          update_001 ?R u w = (Inr (), w))"
    if c: "fst (findAll_001 ?R w) = Inr (json_of_Users c)" for c
    using c
  proof (cases rule: findAll_001_users)
    case unread
    then show ?thesis using c by (simp add: update_001_read_failed)
  next
    case (read r)
    show ?thesis
    proof (rule setItem_001_cases [of J "''users''" "json_of_Users (replace_first u c)" w])
      fix e
      assume "setItem_001 ?S ''users'' (json_of_Users (replace_first u c)) w = (Inl (Fail e), w)"
      then show ?thesis using c by (auto simp: update_001_users [OF read])
    next
      fix w'
      assume s: "setItem_001 ?S ''users'' (json_of_Users (replace_first u c)) w = (Inr (), w')"
      have "getItem_001 ?S ''users'' w' = (Inr (Some (json_of_Users (replace_first u c))), w')"
        by (rule read_after_write_001 [OF s])
      then have "fst (findAll_001 ?R w') = Inr (json_of_Users (replace_first u c))"
        by (simp add: findAll_001_persisted or_empty_users)
      then show ?thesis using s by (simp add: update_001_users [OF read])
    qed
  qed
  have p: "fst (update_001 ?R u w) = Inr ()
          \<and> (user_id u \<in> user_id ` set c \<longrightarrow>
               fst (setItem_001 ?S ''users'' (json_of_Users (replace_first u c)) w) = Inr () \<longrightarrow>
               (\<exists>i < length c. user_id (c ! i) = user_id u
                  \<and> fst (findAll_001 ?R (snd (update_001 ?R u w))) = Inr (json_of_Users (c[i := u]))))
          \<and> (user_id u \<notin> user_id ` set c \<longrightarrow>
               fst (findAll_001 ?R (snd (update_001 ?R u w))) = Inr (json_of_Users c))
          \<and> (isl (fst (setItem_001 ?S ''users'' (json_of_Users (replace_first u c)) w)) \<longrightarrow>
               update_001 ?R u w = (Inr (), w))"
    if c: "fst (findAll_001 ?R w) = Inr (json_of_Users c)" for c
  proof -
    note q = persisted [OF c]
    have present: "\<exists>i < length c. user_id (c ! i) = user_id u
          \<and> fst (findAll_001 ?R (snd (update_001 ?R u w))) = Inr (json_of_Users (c[i := u]))"
      if "user_id u \<in> user_id ` set c"
        "fst (setItem_001 ?S ''users'' (json_of_Users (replace_first u c)) w) = Inr ()"
      using replace_first_present [OF that(1)] q that(2) by auto
    have absent: "fst (findAll_001 ?R (snd (update_001 ?R u w))) = Inr (json_of_Users c)"
      if "user_id u \<notin> user_id ` set c"
      using q replace_first_absent [OF that] by simp
    show ?thesis using q present absent by blast
  qed
  show ?thesis using m0 m1 m2 p by blast
qed

theorem update_replaces_present_record_witness:
  "user_id \<lparr>user_id = 1, name = ''Changed''\<rparr> \<in> user_id ` set (users (world_of store_seeded))
   \<and> (\<exists>i < length (users (world_of store_seeded)).
         user_id (users (world_of store_seeded) ! i) = user_id \<lparr>user_id = 1, name = ''Changed''\<rparr>
         \<and> users (snd (update_001 inMemoryUserRepository \<lparr>user_id = 1, name = ''Changed''\<rparr>
                          (world_of store_seeded)))
             = (users (world_of store_seeded))[i := \<lparr>user_id = 1, name = ''Changed''\<rparr>])
   \<and> user_id \<lparr>user_id = 3, name = ''New''\<rparr> \<notin> user_id ` set (users (world_of store_seeded))
   \<and> users (snd (update_001 inMemoryUserRepository \<lparr>user_id = 3, name = ''New''\<rparr>
                    (world_of store_seeded)))
       = users (world_of store_seeded)
   \<and> fst (findAll_001 (userLocalStorageRepositoryLayer JSON_strict) (world_of store_seeded))
       = Inr (json_of_Users users_seed)
   \<and> fst (update_001 (userLocalStorageRepositoryLayer JSON_strict)
            \<lparr>user_id = 1, name = ''Changed''\<rparr> (world_of store_seeded)) = Inr ()
   \<and> user_id \<lparr>user_id = 1, name = ''Changed''\<rparr> \<in> user_id ` set users_seed
   \<and> fst (setItem_001 (localStorageServiceLive_001 JSON_strict) ''users''
            (json_of_Users (replace_first \<lparr>user_id = 1, name = ''Changed''\<rparr> users_seed))
            (world_of store_seeded))
       = Inr ()
   \<and> (\<exists>i < length users_seed.
         user_id (users_seed ! i) = user_id \<lparr>user_id = 1, name = ''Changed''\<rparr>
         \<and> fst (findAll_001 (userLocalStorageRepositoryLayer JSON_strict)
                  (snd (update_001 (userLocalStorageRepositoryLayer JSON_strict)
                          \<lparr>user_id = 1, name = ''Changed''\<rparr> (world_of store_seeded))))
             = Inr (json_of_Users (users_seed[i := \<lparr>user_id = 1, name = ''Changed''\<rparr>])))
   \<and> user_id \<lparr>user_id = 3, name = ''New''\<rparr> \<notin> user_id ` set users_seed
   \<and> fst (findAll_001 (userLocalStorageRepositoryLayer JSON_strict)
            (snd (update_001 (userLocalStorageRepositoryLayer JSON_strict)
                    \<lparr>user_id = 3, name = ''New''\<rparr> (world_of store_seeded))))
       = Inr (json_of_Users users_seed)
   \<and> fst (findAll_001 (userLocalStorageRepositoryLayer JSON_strict) (world_of store_full))
       = Inr (json_of_Users users_seed)
   \<and> isl (fst (setItem_001 (localStorageServiceLive_001 JSON_strict) ''users''
                 (json_of_Users (replace_first \<lparr>user_id = 1, name = ''Changed''\<rparr> users_seed))
                 (world_of store_full)))
   \<and> update_001 (userLocalStorageRepositoryLayer JSON_strict)
        \<lparr>user_id = 1, name = ''Changed''\<rparr> (world_of store_full)
       = (Inr (), world_of store_full)"
proof -
  let ?u1 = "\<lparr>user_id = 1, name = ''Changed''\<rparr>"
  let ?u3 = "\<lparr>user_id = 3, name = ''New''\<rparr>"
  let ?R = "userLocalStorageRepositoryLayer JSON_strict"
  let ?S = "localStorageServiceLive_001 JSON_strict"
  have m1: "user_id ?u1 \<in> user_id ` set (users (world_of store_seeded))"
    by (simp add: world_of_users seed_ids)
  have m3: "user_id ?u3 \<notin> user_id ` set (users (world_of store_seeded))"
    by (simp add: world_of_users seed_ids)
  have s1: "user_id ?u1 \<in> user_id ` set users_seed"
    by (simp add: seed_ids)
  have s3: "user_id ?u3 \<notin> user_id ` set users_seed"
    by (simp add: seed_ids)
  have all_seeded: "fst (findAll_001 ?R (world_of store_seeded)) = Inr (json_of_Users users_seed)"
    by code_simp
  have all_full: "fst (findAll_001 ?R (world_of store_full)) = Inr (json_of_Users users_seed)"
    by code_simp
  have accepted: "fst (setItem_001 ?S ''users'' (json_of_Users (replace_first ?u1 users_seed))
                        (world_of store_seeded)) = Inr ()"
    by code_simp
  have rejected: "isl (fst (setItem_001 ?S ''users'' (json_of_Users (replace_first ?u1 users_seed))
                             (world_of store_full)))"
    by code_simp
  note present = update_replaces_present_record
    [where u = ?u1 and w = "world_of store_seeded" and J = JSON_strict]
  note absent = update_replaces_present_record
    [where u = ?u3 and w = "world_of store_seeded" and J = JSON_strict]
  note full = update_replaces_present_record
    [where u = ?u1 and w = "world_of store_full" and J = JSON_strict]
  have a: "\<exists>i < length (users (world_of store_seeded)).
         user_id (users (world_of store_seeded) ! i) = user_id ?u1
         \<and> users (snd (update_001 inMemoryUserRepository ?u1 (world_of store_seeded)))
             = (users (world_of store_seeded))[i := ?u1]"
    using present m1 by blast
  have b: "users (snd (update_001 inMemoryUserRepository ?u3 (world_of store_seeded)))
       = users (world_of store_seeded)"
    using absent m3 by blast
  have ok: "fst (update_001 ?R ?u1 (world_of store_seeded)) = Inr ()"
    using present all_seeded by blast
  have c: "\<exists>i < length users_seed.
         user_id (users_seed ! i) = user_id ?u1
         \<and> fst (findAll_001 ?R (snd (update_001 ?R ?u1 (world_of store_seeded))))
             = Inr (json_of_Users (users_seed[i := ?u1]))"
    using present all_seeded s1 accepted by blast
  have d: "fst (findAll_001 ?R (snd (update_001 ?R ?u3 (world_of store_seeded))))
       = Inr (json_of_Users users_seed)"
    using absent all_seeded s3 by blast
  have e: "update_001 ?R ?u1 (world_of store_full) = (Inr (), world_of store_full)"
    using full all_full rejected by blast
  show ?thesis
    using m1 a m3 b all_seeded ok s1 accepted c s3 d all_full rejected e
    by (intro conjI)
qed

text \<open>
  Without the condition on the write the property fails for the persisted repository: a
  store that holds the seed and rejects writes keeps the record with id 1 as it was, and
  \<^verbatim>\<open>update\<close> still succeeds.
\<close>

theorem update_replaces_counterexample:
  "fst (findAll_001 (userLocalStorageRepositoryLayer JSON_strict) (world_of store_full))
     = Inr (json_of_Users users_seed)
   \<and> user_id \<lparr>user_id = 1, name = ''Changed''\<rparr> \<in> user_id ` set users_seed
   \<and> fst (update_001 (userLocalStorageRepositoryLayer JSON_strict)
            \<lparr>user_id = 1, name = ''Changed''\<rparr> (world_of store_full)) = Inr ()
   \<and> fst (findAll_001 (userLocalStorageRepositoryLayer JSON_strict)
            (snd (update_001 (userLocalStorageRepositoryLayer JSON_strict)
                    \<lparr>user_id = 1, name = ''Changed''\<rparr> (world_of store_full))))
     = Inr (json_of_Users users_seed)
   \<and> json_of_Users users_seed
     \<noteq> json_of_Users (users_seed[0 := \<lparr>user_id = 1, name = ''Changed''\<rparr>])"
  by code_simp

text \<open>
  C3. For every id present in the seed collection, \<^verbatim>\<open>findById(id)\<close> of the in-memory
  repositories (of \<^verbatim>\<open>part_001\<close> and of \<^verbatim>\<open>part_000\<close>), run while the array holds the seed,
  succeeds and returns a user whose id is the queried id; so does the stub repository of
  \<^verbatim>\<open>Program.ts\<close>.
\<close>

theorem in_memory_findById_of_seed:
  assumes "users w = users_seed" and "i \<in> user_id ` set users_seed"
  shows "(\<exists>u. findById_001 inMemoryUserRepository i w = (Inr (Some (json_of_User u)), w)
              \<and> user_id u = i)
         \<and> (\<exists>u. findById_000 userInmemoryRepositoryLive i w = (Inr (Some (json_of_User u)), w)
              \<and> user_id u = i)
         \<and> (\<exists>u. findById_prog userRepositoryLive i w = (Inr u, w) \<and> user_id u = i)"
  using find_present [of i "users w"] assms
  by (auto simp: findById_001_in_memory findById_000_in_memory userRepositoryLive_def
      Effect_succeed_def)

theorem in_memory_findById_of_seed_witness:
  "users (world_of store_missing) = users_seed \<and> 2 \<in> user_id ` set users_seed
   \<and> (\<exists>u. findById_001 inMemoryUserRepository 2 (world_of store_missing)
              = (Inr (Some (json_of_User u)), world_of store_missing) \<and> user_id u = 2)
   \<and> (\<exists>u. findById_000 userInmemoryRepositoryLive 2 (world_of store_missing)
              = (Inr (Some (json_of_User u)), world_of store_missing) \<and> user_id u = 2)
   \<and> (\<exists>u. (findById_prog userRepositoryLive 2 :: (User, unit) Effect) (world_of store_missing)
              = (Inr u, world_of store_missing) \<and> user_id u = 2)"
proof -
  have a: "users (world_of store_missing) = users_seed" by (simp add: world_of_def)
  have b: "2 \<in> user_id ` set users_seed" by (simp add: seed_ids)
  show ?thesis using a b in_memory_findById_of_seed [OF a b] by simp
qed

text \<open>
  C4, amended. For every id absent from the collection, \<^verbatim>\<open>findById\<close> of the in-memory
  repositories of \<^verbatim>\<open>part_000\<close> and \<^verbatim>\<open>part_001\<close> succeeds with \<^verbatim>\<open>undefined\<close>, and so does
  \<^verbatim>\<open>findById\<close> of the persisted repositories when the collection read is an array of user
  records; none fails with the not-found error. The stub repository of \<^verbatim>\<open>Program.ts\<close> has no
  absent case: for every id, an integer from \<open>-2^53\<close> to \<open>2^53 - 1\<close>, its \<^verbatim>\<open>findById\<close> returns
  the record made of the id and the name \<^verbatim>\<open>"User "\<close> followed by the decimal digits of the
  id.
\<close>

theorem findById_absent_id:
  "(i \<notin> user_id ` set (users w) \<longrightarrow>
      findById_001 inMemoryUserRepository i w = (Inr None, w)
      \<and> findById_000 userInmemoryRepositoryLive i w = (Inr None, w))
   \<and> (\<forall>c. fst (findAll_001 (userLocalStorageRepositoryLayer J) w) = Inr (json_of_Users c) \<longrightarrow>
          i \<notin> user_id ` set c \<longrightarrow>
          findById_001 (userLocalStorageRepositoryLayer J) i w = (Inr None, w))
   \<and> (\<forall>c. fst (findAll_000 (userLocalStorageRepositoryLive J) w) = Inr (json_of_Users c) \<longrightarrow>
          i \<notin> user_id ` set c \<longrightarrow>
          findById_000 (userLocalStorageRepositoryLive J) i w = (Inr None, w))
   \<and> findById_prog userRepositoryLive i w
       = (Inr \<lparr>user_id = i, name = ''User '' @ Number_toString i\<rparr>, w)"
proof -
  have mem: "i \<notin> user_id ` set (users w) \<longrightarrow>
      findById_001 inMemoryUserRepository i w = (Inr None, w)
      \<and> findById_000 userInmemoryRepositoryLive i w = (Inr None, w)"
    by (simp add: findById_001_in_memory findById_000_in_memory find_absent)
  have p1: "findById_001 (userLocalStorageRepositoryLayer J) i w = (Inr None, w)"
    if "fst (findAll_001 (userLocalStorageRepositoryLayer J) w) = Inr (json_of_Users c)"
      "i \<notin> user_id ` set c" for c
    using that by (simp add: findById_001_users find_absent)
  have p0: "findById_000 (userLocalStorageRepositoryLive J) i w = (Inr None, w)"
    if "fst (findAll_000 (userLocalStorageRepositoryLive J) w) = Inr (json_of_Users c)"
      "i \<notin> user_id ` set c" for c
    using that by (simp add: findById_000_users find_absent)
  have stub: "findById_prog userRepositoryLive i w
       = (Inr \<lparr>user_id = i, name = ''User '' @ Number_toString i\<rparr>, w)"
    by (simp add: userRepositoryLive_def Effect_succeed_def)
  show ?thesis using mem p1 p0 stub by blast
qed

theorem findById_absent_id_witness:
  "3 \<notin> user_id ` set (users (world_of store_seeded))
   \<and> findById_001 inMemoryUserRepository 3 (world_of store_seeded)
       = (Inr None, world_of store_seeded)
   \<and> findById_000 userInmemoryRepositoryLive 3 (world_of store_seeded)
       = (Inr None, world_of store_seeded)
   \<and> fst (findAll_001 (userLocalStorageRepositoryLayer JSON_strict) (world_of store_seeded))
       = Inr (json_of_Users users_seed)
   \<and> 3 \<notin> user_id ` set users_seed
   \<and> findById_001 (userLocalStorageRepositoryLayer JSON_strict) 3 (world_of store_seeded)
       = (Inr None, world_of store_seeded)
   \<and> fst (findAll_000 (userLocalStorageRepositoryLive JSON_strict) (world_of store_seeded))
       = Inr (json_of_Users users_seed)
   \<and> findById_000 (userLocalStorageRepositoryLive JSON_strict) 3 (world_of store_seeded)
       = (Inr None, world_of store_seeded)"
proof -
  have a: "3 \<notin> user_id ` set (users (world_of store_seeded))"
    by (simp add: world_of_users seed_ids)
  have b: "3 \<notin> user_id ` set users_seed"
    by (simp add: seed_ids)
  have c1: "fst (findAll_001 (userLocalStorageRepositoryLayer JSON_strict) (world_of store_seeded))
       = Inr (json_of_Users users_seed)"
    by code_simp
  have c0: "fst (findAll_000 (userLocalStorageRepositoryLive JSON_strict) (world_of store_seeded))
       = Inr (json_of_Users users_seed)"
    by code_simp
  show ?thesis
    using a b c1 c0
      findById_absent_id [where i = 3 and w = "world_of store_seeded" and J = JSON_strict]
    by blast
qed

text \<open>
  As stated for every implementation the property fails on the stub repository of
  \<^verbatim>\<open>Program.ts\<close>: its collection is the two seed records, and for the absent id 3 it
  returns a user record.
\<close>

theorem findById_absent_counterexample:
  "fst ((findAll_prog userRepositoryLive :: (User list, unit) Effect) (world_of store_empty))
     = Inr users_seed
   \<and> 3 \<notin> user_id ` set users_seed
   \<and> fst ((findById_prog userRepositoryLive 3 :: (User, unit) Effect) (world_of store_empty))
     = Inr \<lparr>user_id = 3, name = ''User 3''\<rparr>"
  by (simp add: userRepositoryLive_def Effect_succeed_def seed_ids)
     (simp add: users_seed_def Number_toString_def show_int_def show_nat.simps digit_def)

text \<open>
  C5. In \<^verbatim>\<open>part_000\<close>, \<^verbatim>\<open>getItem("users")\<close> on a store without that key: the error
  \<^verbatim>\<open>LocalStorageError.NotFound("users")\<close> is thrown inside the thunk of \<^verbatim>\<open>Effect.try\<close>, whose
  \<^verbatim>\<open>catch\<close> passes it through \<^verbatim>\<open>LocalStorageError.parseError\<close>. The failure of the effect is
  the parse error built from the message of the not-found error, with the class prefix
  twice; it is not the not-found error.
\<close>

theorem getItem_strict_unset_key:
  "fst (getItem_000 (localStorageServiceLive_000 J) ''users'' (world_of store_empty))
     = Inl (Fail (parseError (ThrownLocalStorageError (LocalStorageError_NotFound ''users''))))
   \<and> parseError (ThrownLocalStorageError (LocalStorageError_NotFound ''users''))
     = LocalStorageError ''LocalStorageError: LocalStorageError: LocalStorage key users not found''
   \<and> LocalStorageError_NotFound ''users''
     = LocalStorageError ''LocalStorageError: LocalStorage key users not found''
   \<and> fst (getItem_000 (localStorageServiceLive_000 J) ''users'' (world_of store_empty))
     \<noteq> Inl (Fail (LocalStorageError_NotFound ''users''))"
  by (simp add: getItem_000_eq world_of_def store_empty_def parseError_def
      LocalStorageError_NotFound_def new_LocalStorageError_def)

text \<open>
  C6, amended. For every key \<open>k\<close>, every array \<open>v\<close> of user records and every state in which
  \<^verbatim>\<open>setItem(k, v)\<close> succeeds, \<^verbatim>\<open>setItem(k, v)\<close> followed by \<^verbatim>\<open>getItem(k)\<close> succeeds and returns
  \<open>v\<close>, with the store service of \<^verbatim>\<open>part_001\<close> and with the one of \<^verbatim>\<open>part_000\<close>. That
  \<^verbatim>\<open>JSON.parse\<close> reads back what \<^verbatim>\<open>JSON.stringify\<close> wrote is proved (\<open>JSON_parse_users\<close>), not
  assumed.
\<close>

theorem setItem_then_getItem:
  assumes "fst (setItem_001 (localStorageServiceLive_001 J) key (json_of_Users v) w) = Inr ()"
  shows "fst (yield (setItem_001 (localStorageServiceLive_001 J) key (json_of_Users v))
                (\<lambda>_. getItem_001 (localStorageServiceLive_001 J) key) w)
           = Inr (Some (json_of_Users v))
         \<and> fst (yield (setItem_000 (localStorageServiceLive_000 J) key (json_of_Users v))
                (\<lambda>_. getItem_000 (localStorageServiceLive_000 J) key) w)
           = Inr (json_of_Users v)"
proof -
  obtain w' where s1:
    "setItem_001 (localStorageServiceLive_001 J) key (json_of_Users v) w = (Inr (), w')"
    using assms
    by (cases "setItem_001 (localStorageServiceLive_001 J) key (json_of_Users v) w") simp
  then have s0:
    "setItem_000 (localStorageServiceLive_000 J) key (json_of_Users v) w = (Inr (), w')"
    by (simp add: setItem_000_eq)
  show ?thesis
    using read_after_write_001 [OF s1] read_after_write_000 [OF s0] s1 s0
    by (simp add: yield_def Effect_flatMap_def)
qed

theorem setItem_then_getItem_witness:
  "fst (setItem_001 (localStorageServiceLive_001 JSON_strict) ''users'' (json_of_Users users_seed)
           (world_of store_empty)) = Inr ()
   \<and> fst (yield (setItem_001 (localStorageServiceLive_001 JSON_strict) ''users''
                   (json_of_Users users_seed))
             (\<lambda>_. getItem_001 (localStorageServiceLive_001 JSON_strict) ''users'')
             (world_of store_empty))
       = Inr (Some (json_of_Users users_seed))
   \<and> fst (yield (setItem_000 (localStorageServiceLive_000 JSON_strict) ''users''
                   (json_of_Users users_seed))
             (\<lambda>_. getItem_000 (localStorageServiceLive_000 JSON_strict) ''users'')
             (world_of store_empty))
       = Inr (json_of_Users users_seed)"
proof -
  have b: "fst (setItem_001 (localStorageServiceLive_001 JSON_strict) ''users''
                 (json_of_Users users_seed) (world_of store_empty)) = Inr ()"
    by code_simp
  show ?thesis using b setItem_then_getItem [OF b] by simp
qed

text \<open>
  Without the condition that the write succeeds the property fails: on a store that holds
  the seed and rejects writes, \<^verbatim>\<open>setItem\<close> fails with the error of the write, and
  \<^verbatim>\<open>getItem\<close> in the state after returns the seed, not the value given to \<^verbatim>\<open>setItem\<close>.
\<close>

theorem setItem_then_getItem_counterexample:
  "fst (setItem_001 (localStorageServiceLive_001 JSON_strict) ''users''
            (json_of_Users [\<lparr>user_id = 1, name = ''Changed''\<rparr>]) (world_of store_full))
       = Inl (Fail (LocalStorageError ''LocalStorageError: QuotaExceededError''))
   \<and> fst (getItem_001 (localStorageServiceLive_001 JSON_strict) ''users''
            (snd (setItem_001 (localStorageServiceLive_001 JSON_strict) ''users''
                    (json_of_Users [\<lparr>user_id = 1, name = ''Changed''\<rparr>]) (world_of store_full))))
       = Inr (Some (json_of_Users users_seed))
   \<and> json_of_Users users_seed \<noteq> json_of_Users [\<lparr>user_id = 1, name = ''Changed''\<rparr>]"
  by code_simp

text \<open>
  C7. The last line of \<^verbatim>\<open>part_001\<close> takes the one value of the environment variable: when it
  is \<^verbatim>\<open>"development"\<close> the in-memory layer is selected, the workflow runs on the in-memory
  repository and prints what the array \<^verbatim>\<open>users\<close> holds; for every other value, and when the
  variable is not set, the persisted layer is selected and the workflow runs on the
  repository over the store service: it prints what that repository reads, or dies with a
  defect of a lookup and prints nothing; when the collection read is an array of user
  records it prints the two lookups in it and the array.
\<close>

theorem layer_selected_by_environment:
  "(BUN_ENV = Some ''development'' \<longrightarrow>
      selectUserRepositoryLayer J (BUN_ENV = Some ''development'') = inMemoryUserRepositoryLayer
      \<and> run_001 J BUN_ENV = main_001 inMemoryUserRepository
      \<and> run_001 J BUN_ENV w =
          (Inr (), w\<lparr>console := console w @
             [(''user1'', of_undefined (find (\<lambda>user. user_id user = 1) (users w))),
              (''user2'', of_undefined (find (\<lambda>user. user_id user = 2) (users w))),
              (''all'', JsUsers (users w))]\<rparr>))
   \<and> (BUN_ENV \<noteq> Some ''development'' \<longrightarrow>
      selectUserRepositoryLayer J (BUN_ENV = Some ''development'') = userLocalStorageRepositoryLayer J
      \<and> run_001 J BUN_ENV = main_001 (userLocalStorageRepository (localStorageServiceLive_001 J))
      \<and> ((\<exists>a b c. findById_001 (userLocalStorageRepositoryLayer J) 1 w = (Inr a, w)
             \<and> findById_001 (userLocalStorageRepositoryLayer J) 2 w = (Inr b, w)
             \<and> findAll_001 (userLocalStorageRepositoryLayer J) w = (Inr c, w)
             \<and> run_001 J BUN_ENV w =
                 (Inr (), w\<lparr>console := console w @
                    [(''user1'', or_undefined a), (''user2'', or_undefined b),
                     (''all'', JsDefined c)]\<rparr>))
          \<or> (\<exists>t. run_001 J BUN_ENV w = (Inl (Die t), w)))
      \<and> (\<forall>c. fst (findAll_001 (userLocalStorageRepositoryLayer J) w) = Inr (json_of_Users c) \<longrightarrow>
             run_001 J BUN_ENV w =
               (Inr (), w\<lparr>console := console w @
                  [(''user1'', of_undefined (find (\<lambda>user. user_id user = 1) c)),
                   (''user2'', of_undefined (find (\<lambda>user. user_id user = 2) c)),
                   (''all'', JsUsers c)]\<rparr>)))"
proof (intro conjI impI allI)
  assume dev: "BUN_ENV = Some ''development''"
  then show "selectUserRepositoryLayer J (BUN_ENV = Some ''development'') = inMemoryUserRepositoryLayer"
    by (simp add: selectUserRepositoryLayer_def)
  from dev show run: "run_001 J BUN_ENV = main_001 inMemoryUserRepository"
    by (simp add: run_001_def selectUserRepositoryLayer_def inMemoryUserRepositoryLayer_def)
  show "run_001 J BUN_ENV w =
          (Inr (), w\<lparr>console := console w @
             [(''user1'', of_undefined (find (\<lambda>user. user_id user = 1) (users w))),
              (''user2'', of_undefined (find (\<lambda>user. user_id user = 2) (users w))),
              (''all'', JsUsers (users w))]\<rparr>)"
    by (simp only: run main_001_in_memory)
next
  assume other: "BUN_ENV \<noteq> Some ''development''"
  then show "selectUserRepositoryLayer J (BUN_ENV = Some ''development'')
             = userLocalStorageRepositoryLayer J"
    by (simp add: selectUserRepositoryLayer_def)
  from other
  show "run_001 J BUN_ENV = main_001 (userLocalStorageRepository (localStorageServiceLive_001 J))"
    by (simp add: run_001_def selectUserRepositoryLayer_def userLocalStorageRepositoryLayer_def)
  from other have run: "run_001 J BUN_ENV = main_001 (userLocalStorageRepositoryLayer J)"
    by (simp add: run_001_def selectUserRepositoryLayer_def)
  show "(\<exists>a b c. findById_001 (userLocalStorageRepositoryLayer J) 1 w = (Inr a, w)
             \<and> findById_001 (userLocalStorageRepositoryLayer J) 2 w = (Inr b, w)
             \<and> findAll_001 (userLocalStorageRepositoryLayer J) w = (Inr c, w)
             \<and> run_001 J BUN_ENV w =
                 (Inr (), w\<lparr>console := console w @
                    [(''user1'', or_undefined a), (''user2'', or_undefined b),
                     (''all'', JsDefined c)]\<rparr>))
          \<or> (\<exists>t. run_001 J BUN_ENV w = (Inl (Die t), w))"
    using main_001_persisted [of J w] by (simp only: run)
  fix c
  assume "fst (findAll_001 (userLocalStorageRepositoryLayer J) w) = Inr (json_of_Users c)"
  then show "run_001 J BUN_ENV w =
               (Inr (), w\<lparr>console := console w @
                  [(''user1'', of_undefined (find (\<lambda>user. user_id user = 1) c)),
                   (''user2'', of_undefined (find (\<lambda>user. user_id user = 2) c)),
                   (''all'', JsUsers c)]\<rparr>)"
    by (simp only: run main_001_users)
qed

theorem layer_selected_by_environment_witness:
  "console (snd (run_001 JSON_strict (Some ''development'') (world_of store_empty)))
     = [(''user1'', JsUser \<lparr>user_id = 1, name = ''User 1''\<rparr>),
        (''user2'', JsUser \<lparr>user_id = 2, name = ''User 2''\<rparr>),
        (''all'', JsUsers users_seed)]
   \<and> fst (findAll_001 (userLocalStorageRepositoryLayer JSON_strict) (world_of store_empty))
     = Inr (json_of_Users [])
   \<and> console (snd (run_001 JSON_strict (Some ''production'') (world_of store_empty)))
     = [(''user1'', JsUndefined), (''user2'', JsUndefined), (''all'', JsUsers [])]
   \<and> console (snd (run_001 JSON_strict None (world_of store_empty)))
     = [(''user1'', JsUndefined), (''user2'', JsUndefined), (''all'', JsUsers [])]"
proof -
  have seed: "find (\<lambda>user. user_id user = 1) users_seed = Some \<lparr>user_id = 1, name = ''User 1''\<rparr>"
    "find (\<lambda>user. user_id user = 2) users_seed = Some \<lparr>user_id = 2, name = ''User 2''\<rparr>"
    by (simp_all add: users_seed_def)
  have all: "fst (findAll_001 (userLocalStorageRepositoryLayer JSON_strict) (world_of store_empty))
     = Inr (json_of_Users [])"
    by code_simp
  have quiet: "console (world_of store_empty) = []"
    by (simp add: world_of_def)
  note dev = layer_selected_by_environment
        [where BUN_ENV = "Some ''development''" and J = JSON_strict and w = "world_of store_empty"]
  note prod = layer_selected_by_environment
        [where BUN_ENV = "Some ''production''" and J = JSON_strict and w = "world_of store_empty"]
  note unset = layer_selected_by_environment
        [where BUN_ENV = "None" and J = JSON_strict and w = "world_of store_empty"]
  have a: "console (snd (run_001 JSON_strict (Some ''development'') (world_of store_empty)))
     = [(''user1'', JsUser \<lparr>user_id = 1, name = ''User 1''\<rparr>),
        (''user2'', JsUser \<lparr>user_id = 2, name = ''User 2''\<rparr>),
        (''all'', JsUsers users_seed)]"
  proof -
    have "run_001 JSON_strict (Some ''development'') (world_of store_empty) =
          (Inr (), (world_of store_empty)\<lparr>console := console (world_of store_empty) @
             [(''user1'', of_undefined (find (\<lambda>user. user_id user = 1)
                                         (users (world_of store_empty)))),
              (''user2'', of_undefined (find (\<lambda>user. user_id user = 2)
                                         (users (world_of store_empty)))),
              (''all'', JsUsers (users (world_of store_empty)))]\<rparr>)"
      using dev by blast
    then show ?thesis
      by (simp add: world_of_users seed quiet of_undefined_def)
  qed
  have "run_001 JSON_strict (Some ''production'') (world_of store_empty) =
               (Inr (), (world_of store_empty)\<lparr>console := console (world_of store_empty) @
                  [(''user1'', of_undefined (find (\<lambda>user. user_id user = 1) [])),
                   (''user2'', of_undefined (find (\<lambda>user. user_id user = 2) [])),
                   (''all'', JsUsers [])]\<rparr>)"
    using prod all by blast
  then have b: "console (snd (run_001 JSON_strict (Some ''production'') (world_of store_empty)))
     = [(''user1'', JsUndefined), (''user2'', JsUndefined), (''all'', JsUsers [])]"
    by (simp add: quiet of_undefined_def)
  have "run_001 JSON_strict None (world_of store_empty) =
               (Inr (), (world_of store_empty)\<lparr>console := console (world_of store_empty) @
                  [(''user1'', of_undefined (find (\<lambda>user. user_id user = 1) [])),
                   (''user2'', of_undefined (find (\<lambda>user. user_id user = 2) [])),
                   (''all'', JsUsers [])]\<rparr>)"
    using unset all by blast
  then have c: "console (snd (run_001 JSON_strict None (world_of store_empty)))
     = [(''user1'', JsUndefined), (''user2'', JsUndefined), (''all'', JsUsers [])]"
    by (simp add: quiet of_undefined_def)
  show ?thesis using a all b c by (intro conjI)
qed




text \<open>
  C9. In \<^verbatim>\<open>part_001\<close>, when \<^verbatim>\<open>localStorage.getItem(key)\<close> returns \<^verbatim>\<open>null\<close> (the key is unset) or
  the empty string, \<^verbatim>\<open>getItem(key)\<close> succeeds with \<^verbatim>\<open>undefined\<close>, whatever \<^verbatim>\<open>JSON.parse\<close> does:
  the text is not parsed, and no parse failure arises.
\<close>

theorem getItem_permissive_absent_on_falsy_item:
  assumes "fst (localStorage_getItem key w) = Inr None \<or> fst (localStorage_getItem key w) = Inr (Some [])"
  shows "getItem_001 (localStorageServiceLive_001 J) key w = (Inr None, w)"
  using assms
  by (auto simp: getItem_001_eq localStorage_getItem_def split: option.splits)

theorem getItem_permissive_absent_on_falsy_item_witness:
  "fst (localStorage_getItem ''users'' (world_of store_blank)) = Inr (Some [])
   \<and> getItem_001 (localStorageServiceLive_001 JSON_strict) ''users'' (world_of store_blank)
      = (Inr None, world_of store_blank)
   \<and> fst (localStorage_getItem ''users'' (world_of store_empty)) = Inr None
   \<and> getItem_001 (localStorageServiceLive_001 JSON_lenient) ''users'' (world_of store_empty)
      = (Inr None, world_of store_empty)"
proof -
  have blank: "fst (localStorage_getItem ''users'' (world_of store_blank)) = Inr (Some [])"
    by (simp add: localStorage_getItem_def world_of_def store_blank_def store_empty_def)
  have unset: "fst (localStorage_getItem ''users'' (world_of store_empty)) = Inr None"
    by (simp add: localStorage_getItem_def world_of_def store_empty_def)
  show ?thesis
    using blank unset
      getItem_permissive_absent_on_falsy_item [of "''users''" "world_of store_blank" JSON_strict]
      getItem_permissive_absent_on_falsy_item [of "''users''" "world_of store_empty" JSON_lenient]
    by simp
qed

text \<open>
  C10. \<^verbatim>\<open>program\<close> of \<^verbatim>\<open>Program.ts\<close> on its repository: when \<^verbatim>\<open>UserService\<close> is not in the
  context it succeeds and the first line printed is the fallback record with id 1 and name
  \<^verbatim>\<open>"Optional User"\<close>; when the service is provided it succeeds and the first line printed
  is the result of \<^verbatim>\<open>userRepository.findById(1)\<close>.
\<close>

theorem program_optional_service:
  "fst (program userRepositoryLive None w) = Inr ()
   \<and> console (snd (program userRepositoryLive None w)) =
       console w @ [(''userService'', JsUser \<lparr>user_id = 1, name = ''Optional User''\<rparr>),
                    (''userRepository'', JsUser \<lparr>user_id = 2, name = ''User 2''\<rparr>)]
   \<and> fst (program userRepositoryLive (Some s) w) = Inr ()
   \<and> (\<exists>r. fst (findById_prog userRepositoryLive 1 w) = Inr r
          \<and> console (snd (program userRepositoryLive (Some s) w)) =
              console w @ [(''userService'', JsUser r),
                           (''userRepository'', JsUser \<lparr>user_id = 2, name = ''User 2''\<rparr>)])"
  by (simp add: program_console) (simp add: userRepositoryLive_def Effect_succeed_def Number_toString_1)

end
